theory Spec2Isabelle
  imports Complex_Main
begin

section \<open>Common types\<close>

text \<open>
  Times and durations (\<^verbatim>\<open>cslibs_time::Time\<close>, \<^verbatim>\<open>cslibs_time::Duration\<close>,
  \<^verbatim>\<open>ros::Time\<close>, \<^verbatim>\<open>ros::Duration\<close>) are real numbers of seconds; the \<^verbatim>\<open>double\<close>
  parameters of the node handle are real numbers as well.
\<close>

type_synonym time = real

text \<open>
  What ends a thread abnormally, and with it the process: a failed \<^verbatim>\<open>assert\<close>, a
  null pointer that is dereferenced, \<^verbatim>\<open>pop\<close> on an empty queue, \<^verbatim>\<open>std::terminate\<close>
  (assignment to a joinable \<^verbatim>\<open>std::thread\<close>), the failing cast of \<^verbatim>\<open>Map::as\<close>, the
  call of a pure virtual function, and the exception of \<^verbatim>\<open>boost::filesystem\<close>.
\<close>

datatype fault =
    AssertionFailed | NullPointer | EmptyQueuePop | Terminate | TypeMismatch
  | PureVirtualCall | FilesystemError

text \<open>The lines written to \<^verbatim>\<open>std::cout\<close> and \<^verbatim>\<open>std::cerr\<close>, by kind.\<close>

datatype message =
    UsingDataProviders "string list"
  | UsingNoPublishers
  | UsingPublishers "string list"
  | NoMap
  | SavingMap
  | IsNotADirectory string
  | CouldNotOpenFile string
  | CouldNotWriteToFile string
  | GotWrongMapType
  | MapCouldNotBePublished

section \<open>Mapper (mapper.hpp)\<close>

subsection \<open>State\<close>

text \<open>
  The worker thread is a program counter over the lines of \<^verbatim>\<open>Mapper::loop\<close>:
  \<^verbatim>\<open>L156\<close> is the prologue (lines 156 to 163), \<^verbatim>\<open>L164\<close> the test of the outer
  \<^verbatim>\<open>while\<close>, \<^verbatim>\<open>L166\<close> the test \<^verbatim>\<open>queue_.empty()\<close>, \<^verbatim>\<open>L167\<close> the thread blocked in
  \<^verbatim>\<open>wait_for\<close>, \<^verbatim>\<open>L169\<close> the test of the inner \<^verbatim>\<open>while\<close>, \<^verbatim>\<open>L170\<close> the test of
  \<^verbatim>\<open>stop_\<close> before the \<^verbatim>\<open>break\<close>, \<^verbatim>\<open>L173\<close> the statement
  \<^verbatim>\<open>process(queue_.pop()); ++n;\<close> and \<^verbatim>\<open>L175\<close> the reading of the clock with the
  test \<^verbatim>\<open>now >= pub\<close>. \<^verbatim>\<open>NotStarted\<close> is a default-constructed \<^verbatim>\<open>thread_\<close>,
  \<^verbatim>\<open>Exited\<close> a loop that has returned, \<^verbatim>\<open>Aborted\<close> a process that a fault has ended.
\<close>

datatype loop_pc =
  NotStarted | L156 | L164 | L166 | L167 | L169 | L170 | L173 | L175 | Exited | Aborted fault

text \<open>
  The thread that destroys the mapper: at \<^verbatim>\<open>D40\<close> the destruction has not begun,
  \<^verbatim>\<open>D43\<close> is the test \<^verbatim>\<open>queue_.hasElements()\<close>, \<^verbatim>\<open>D44\<close> the \<^verbatim>\<open>queue_.pop()\<close>,
  \<^verbatim>\<open>D46\<close> the join.
\<close>

datatype dtor_pc = D40 | D43 | D44 | D46 | DDone | DAborted fault

text \<open>
  The members of \<^verbatim>\<open>Mapper\<close>, the members of the derived class (\<open>members\<close>), the
  locals of \<^verbatim>\<open>loop\<close> (\<open>loop_start\<close>, \<open>loop_pub\<close>, \<open>loop_n\<close>), the clock that
  \<^verbatim>\<open>Time::now()\<close> reads, both output streams, and two histories: the observations
  \<^verbatim>\<open>process\<close> has returned from (\<open>applied\<close>) and the calls
  \<^verbatim>\<open>p->publish(getMap(), ros::Time::now())\<close> (\<open>published\<close>: publisher, map, stamp).
  A data provider's connection handle and a bound publisher are represented by their
  names; the two registries by their sets of keys. A member \<^verbatim>\<open>x_\<close> of the source
  is the field \<open>m_x\<close>.
\<close>

record ('d, 'st) mapper =
  m_name :: string
  m_publishers :: "string list"
  m_stop :: bool
  m_handles :: "string list"
  m_queue :: "'d list"
  m_map_frame :: string
  m_path :: string
  m_tf_timeout :: time
  m_publish_period :: time
  m_pub_n :: int
  members :: 'st
  pc :: loop_pc
  dpc :: dtor_pc
  loop_start :: time
  loop_pub :: time
  loop_n :: int
  clock :: time
  applied :: "'d list"
  published :: "(string \<times> 'st \<times> time) list"
  cout :: "message list"
  cerr :: "message list"

subsection \<open>The node handle\<close>

datatype param_value =
  PString string | PDouble real | PInt int | PBool bool | PStrings "string list"

type_synonym node_handle = "string \<rightharpoonup> param_value"

definition param_name :: "string \<Rightarrow> string \<Rightarrow> string" where
  "param_name nm k = nm @ ''/'' @ k"

definition param_string :: "node_handle \<Rightarrow> string \<Rightarrow> string \<Rightarrow> string" where
  "param_string nh k dflt = (case nh k of Some (PString v) \<Rightarrow> v | _ \<Rightarrow> dflt)"

definition param_double :: "node_handle \<Rightarrow> string \<Rightarrow> real \<Rightarrow> real" where
  "param_double nh k dflt = (case nh k of Some (PDouble v) \<Rightarrow> v | _ \<Rightarrow> dflt)"

definition param_int :: "node_handle \<Rightarrow> string \<Rightarrow> int \<Rightarrow> int" where
  "param_int nh k dflt = (case nh k of Some (PInt v) \<Rightarrow> v | _ \<Rightarrow> dflt)"

definition param_bool :: "node_handle \<Rightarrow> string \<Rightarrow> bool \<Rightarrow> bool" where
  "param_bool nh k dflt = (case nh k of Some (PBool v) \<Rightarrow> v | _ \<Rightarrow> dflt)"

text \<open>\<^verbatim>\<open>getParam\<close> into a fresh vector: the vector stays empty when the parameter is not set.\<close>

definition getParam_strings :: "node_handle \<Rightarrow> string \<Rightarrow> string list" where
  "getParam_strings nh k = (case nh k of Some (PStrings v) \<Rightarrow> v | _ \<Rightarrow> [])"

subsection \<open>The virtual methods\<close>

text \<open>
  \<^verbatim>\<open>setupMap\<close>, \<^verbatim>\<open>uses\<close>, \<^verbatim>\<open>process\<close> and \<^verbatim>\<open>getMap\<close> are pure virtual in
  \<^verbatim>\<open>Mapper\<close> and given by the derived class. They act on the derived class's members;
  \<^verbatim>\<open>setupMap\<close> also reads \<^verbatim>\<open>name_\<close> and \<^verbatim>\<open>map_frame_\<close>. The destructor is virtual as
  well: \<open>destroy\<close> is what the destructor of the derived class does to its members,
  before \<^verbatim>\<open>~Mapper\<close> runs.
\<close>

record ('d, 'st) vtable =
  setupMap :: "node_handle \<Rightarrow> string \<Rightarrow> string \<Rightarrow> 'st \<Rightarrow> bool \<times> 'st"
  uses :: "'d \<Rightarrow> bool"
  process :: "'d \<Rightarrow> 'st \<Rightarrow> fault + 'st"
  getMap :: "'st \<Rightarrow> fault + 'st"
  destroy :: "'st \<Rightarrow> 'st"

subsection \<open>Configuration (Mapper::setup)\<close>

datatype setup_error =
    NoDataProviders
  | CannotFindDataProvider string
  | CannotFindPublisher string
  | MapNotInitialized

text \<open>The callback connected to every data provider (lines 60 to 65).\<close>

definition callback :: "('d, 'st) vtable \<Rightarrow> 'd \<Rightarrow> ('d, 'st) mapper \<Rightarrow> ('d, 'st) mapper" where
  "callback vt d s = (if uses vt d then s\<lparr>m_queue := m_queue s @ [d]\<rparr> else s)"

text \<open>The loop of lines 83 to 91: the first missing provider throws.\<close>

fun connect_providers ::
  "string set \<Rightarrow> string list \<Rightarrow> ('d, 'st) mapper \<Rightarrow> setup_error + ('d, 'st) mapper" where
  "connect_providers data_providers [] s = Inr s"
| "connect_providers data_providers (d # ds) s =
     (if d \<notin> data_providers then Inl (CannotFindDataProvider d)
      else connect_providers data_providers ds (s\<lparr>m_handles := m_handles s @ [d]\<rparr>))"

text \<open>The loop of lines 103 to 109: the first missing publisher throws.\<close>

fun bind_publishers ::
  "string set \<Rightarrow> string list \<Rightarrow> ('d, 'st) mapper \<Rightarrow> setup_error + ('d, 'st) mapper" where
  "bind_publishers publishers [] s = Inr s"
| "bind_publishers publishers (p # ps) s =
     (if p \<notin> publishers then Inl (CannotFindPublisher p)
      else bind_publishers publishers ps (s\<lparr>m_publishers := m_publishers s @ [p]\<rparr>))"

definition mapper_setup ::
  "('d, 'st) vtable \<Rightarrow> node_handle \<Rightarrow> string set \<Rightarrow> string set \<Rightarrow> ('d, 'st) mapper
     \<Rightarrow> setup_error + ('d, 'st) mapper" where
  "mapper_setup vt nh data_providers publishers s0 =
     (let nm = m_name s0;
          rate = param_double nh (param_name nm ''publish_rate'') 10;
          s1 = s0\<lparr>m_map_frame := param_string nh (param_name nm ''map_frame'') ''/map'',
                  m_publish_period := (if rate = 0 then 0 else 1 / rate),
                  m_tf_timeout := param_double nh (param_name nm ''tf_timeout'') (1 / 10),
                  m_pub_n := param_int nh (param_name nm ''pub_n'') 10\<rparr>;
          data_provider_names = getParam_strings nh (param_name nm ''data_providers'')
      in if data_provider_names = [] then Inl NoDataProviders
         else case connect_providers data_providers data_provider_names s1 of
           Inl e \<Rightarrow> Inl e
         | Inr s2 \<Rightarrow>
             (let s3 = s2\<lparr>cout := cout s2 @ [UsingDataProviders data_provider_names]\<rparr>;
                  publisher_names = getParam_strings nh (param_name nm ''map_publishers'');
                  bound =
                    (if publisher_names = []
                     then Inr (s3\<lparr>cerr := cerr s3 @ [UsingNoPublishers]\<rparr>)
                     else case bind_publishers publishers publisher_names s3 of
                       Inl e \<Rightarrow> Inl e
                     | Inr s4 \<Rightarrow> Inr (s4\<lparr>cout := cout s4 @ [UsingPublishers publisher_names]\<rparr>))
              in case bound of
                Inl e \<Rightarrow> Inl e
              | Inr s5 \<Rightarrow>
                  (case setupMap vt nh nm (m_map_frame s5) (members s5) of
                    (ok, st) \<Rightarrow>
                      if \<not> ok then Inl MapNotInitialized else Inr (s5\<lparr>members := st\<rparr>))))"

subsection \<open>start, publish and loop\<close>

text \<open>
  \<^verbatim>\<open>start\<close> (lines 119 to 123). Assigning to a \<^verbatim>\<open>thread_\<close> that is joinable calls
  \<^verbatim>\<open>std::terminate\<close>.
\<close>

definition start :: "('d, 'st) mapper \<Rightarrow> ('d, 'st) mapper" where
  "start s =
     (if pc s = NotStarted then s\<lparr>m_stop := False, pc := L156\<rparr>
      else s\<lparr>m_stop := False, pc := Aborted Terminate\<rparr>)"

text \<open>
  \<^verbatim>\<open>publish\<close> (lines 191 to 195): \<^verbatim>\<open>getMap()\<close> is called once for each publisher, in
  the order of \<^verbatim>\<open>publishers_\<close>. The whole of it is one step, so the stamps
  \<^verbatim>\<open>ros::Time::now()\<close> are the reading of the clock at that step.
\<close>

fun publish_to ::
  "('d, 'st) vtable \<Rightarrow> string list \<Rightarrow> ('d, 'st) mapper \<Rightarrow> ('d, 'st) mapper" where
  "publish_to vt [] s = s"
| "publish_to vt (p # ps) s =
     (case getMap vt (members s) of
        Inl f \<Rightarrow> s\<lparr>pc := Aborted f\<rparr>
      | Inr m \<Rightarrow> publish_to vt ps (s\<lparr>members := m, published := published s @ [(p, m, clock s)]\<rparr>))"

definition publish :: "('d, 'st) vtable \<Rightarrow> ('d, 'st) mapper \<Rightarrow> ('d, 'st) mapper" where
  "publish vt s = publish_to vt (m_publishers s) s"

text \<open>
  One step of the worker thread. \<^verbatim>\<open>wait_for\<close> may return at any moment (on
  \<^verbatim>\<open>notify_one\<close>, after the period \<^verbatim>\<open>pd\<close>, or spuriously): when it returns is the
  schedule's choice. \<^verbatim>\<open>cslibs_utility::synchronized::queue\<close> is not part of the
  sources; each of its calls is atomic, and \<^verbatim>\<open>pop\<close> on an empty queue is a fault.
  The \<^verbatim>\<open>break\<close> of line 171 leaves the inner loop for the test of the outer one.
\<close>

definition loop_step :: "('d, 'st) vtable \<Rightarrow> ('d, 'st) mapper \<Rightarrow> ('d, 'st) mapper" where
  "loop_step vt s =
     (case pc s of
        L156 \<Rightarrow> s\<lparr>loop_start := clock s, loop_pub := clock s + m_publish_period s,
                  loop_n := 0, pc := L164\<rparr>
      | L164 \<Rightarrow> if m_stop s then s\<lparr>pc := Exited\<rparr> else s\<lparr>pc := L166\<rparr>
      | L166 \<Rightarrow> if m_queue s = [] then s\<lparr>pc := L167\<rparr> else s\<lparr>pc := L169\<rparr>
      | L167 \<Rightarrow> s\<lparr>pc := L169\<rparr>
      | L169 \<Rightarrow> if m_queue s \<noteq> [] then s\<lparr>pc := L170\<rparr> else s\<lparr>pc := L164\<rparr>
      | L170 \<Rightarrow> if m_stop s then s\<lparr>pc := L164\<rparr> else s\<lparr>pc := L173\<rparr>
      | L173 \<Rightarrow>
          (case m_queue s of
             [] \<Rightarrow> s\<lparr>pc := Aborted EmptyQueuePop\<rparr>
           | d # q \<Rightarrow>
               (case process vt d (members s) of
                  Inl f \<Rightarrow> s\<lparr>m_queue := q, pc := Aborted f\<rparr>
                | Inr m \<Rightarrow> s\<lparr>m_queue := q, members := m, applied := applied s @ [d],
                            loop_n := loop_n s + 1, pc := L175\<rparr>))
      | L175 \<Rightarrow>
          (let now = clock s in
           if now \<ge> loop_pub s then
             (let s' = publish vt s in
              if pc s' \<noteq> L175 then s'
              else s'\<lparr>loop_n := 0, loop_start := now,
                      loop_pub := now + m_publish_period s, pc := L169\<rparr>)
           else s\<lparr>pc := L169\<rparr>)
      | _ \<Rightarrow> s)"

subsection \<open>The destructor\<close>

text \<open>
  One step of the thread that destroys the mapper. \<^verbatim>\<open>~Mapper\<close> (lines 38 to 48) is the
  last part of the destruction: the destructor of the derived class runs first and
  destroys the derived class's members. The first step, from \<^verbatim>\<open>D40\<close>, is that
  destructor followed by lines 40 and 41. \<^verbatim>\<open>join\<close> blocks until the loop has
  returned; a thread that was never started is not joinable.
\<close>

definition dtor_step :: "('d, 'st) vtable \<Rightarrow> ('d, 'st) mapper \<Rightarrow> ('d, 'st) mapper" where
  "dtor_step vt s =
     (case dpc s of
        D40 \<Rightarrow> s\<lparr>members := destroy vt (members s), m_stop := True, dpc := D43\<rparr>
      | D43 \<Rightarrow> if m_queue s \<noteq> [] then s\<lparr>dpc := D44\<rparr> else s\<lparr>dpc := D46\<rparr>
      | D44 \<Rightarrow>
          (case m_queue s of
             [] \<Rightarrow> s\<lparr>dpc := DAborted EmptyQueuePop\<rparr>
           | d # q \<Rightarrow> s\<lparr>m_queue := q, dpc := D43\<rparr>)
      | D46 \<Rightarrow> if pc s = NotStarted \<or> pc s = Exited then s\<lparr>dpc := DDone\<rparr> else s
      | _ \<Rightarrow> s)"

subsection \<open>Schedules\<close>

text \<open>
  The threads interleave at the granularity of the steps above. A schedule is the list
  of what happens, in order: a step of the worker, a data provider calling the callback
  with an observation, the clock advancing, a call of \<^verbatim>\<open>start\<close>, a step of the
  destructor. A write to \<^verbatim>\<open>stop_\<close> or to the queue is seen by every later step of
  every thread. The clock never runs backwards: a negative advance is ignored.
\<close>

datatype 'd event = Worker | Callback 'd | Tick time | Start | Destructor

fun step :: "('d, 'st) vtable \<Rightarrow> 'd event \<Rightarrow> ('d, 'st) mapper \<Rightarrow> ('d, 'st) mapper" where
  "step vt Worker s = loop_step vt s"
| "step vt (Callback d) s = callback vt d s"
| "step vt (Tick dt) s = (if 0 \<le> dt then s\<lparr>clock := clock s + dt\<rparr> else s)"
| "step vt Start s = start s"
| "step vt Destructor s = dtor_step vt s"

text \<open>
  From the first step of the destruction on, the object is a \<^verbatim>\<open>Mapper\<close> only: inside
  \<^verbatim>\<open>~Mapper\<close> the virtual functions are those of \<^verbatim>\<open>Mapper\<close> itself, and
  \<^verbatim>\<open>uses\<close>, \<^verbatim>\<open>process\<close> and \<^verbatim>\<open>getMap\<close> are pure there (lines 131, 187 and 188).
  The call of a pure virtual function ends the process. For the worker this is the
  loop with \<^verbatim>\<open>process\<close> and \<^verbatim>\<open>getMap\<close> replaced; the callback, which begins with
  \<^verbatim>\<open>uses\<close>, ends the process at once.
\<close>

definition pure_virtual :: "('d, 'st) vtable \<Rightarrow> ('d, 'st) vtable" where
  "pure_virtual vt =
     vt\<lparr>process := (\<lambda>d st. Inl PureVirtualCall), getMap := (\<lambda>st. Inl PureVirtualCall)\<rparr>"

fun step_destroyed ::
  "('d, 'st) vtable \<Rightarrow> 'd event \<Rightarrow> ('d, 'st) mapper \<Rightarrow> ('d, 'st) mapper" where
  "step_destroyed vt (Callback d) s = s\<lparr>pc := Aborted PureVirtualCall\<rparr>"
| "step_destroyed vt e s = step (pure_virtual vt) e s"

text \<open>The event is the first step of the destruction.\<close>

fun begins_destruction :: "'d event \<Rightarrow> ('d, 'st) mapper \<Rightarrow> bool" where
  "begins_destruction Destructor s = (dpc s = D40)"
| "begins_destruction e s = False"

text \<open>
  The run of a schedule. The flag says whether the object still is of the derived
  class; it falls with the first step of the destruction and never rises again.
  \<open>run vt evs s\<close> is the run of \<open>evs\<close> from \<open>s\<close> for an object of the derived class
  whose virtual functions are \<open>vt\<close>.
\<close>

fun exec ::
  "bool \<Rightarrow> ('d, 'st) vtable \<Rightarrow> 'd event list \<Rightarrow> ('d, 'st) mapper \<Rightarrow> ('d, 'st) mapper" where
  "exec derived vt [] s = s"
| "exec derived vt (e # es) s =
     (if derived then exec (\<not> begins_destruction e s) vt es (step vt e s)
      else exec False vt es (step_destroyed vt e s))"

definition run ::
  "('d, 'st) vtable \<Rightarrow> 'd event list \<Rightarrow> ('d, 'st) mapper \<Rightarrow> ('d, 'st) mapper" where
  "run vt evs s = exec True vt evs s"

text \<open>A mapper as constructed: nothing configured, the thread not started.\<close>

definition new_mapper :: "string \<Rightarrow> 'st \<Rightarrow> ('d, 'st) mapper" where
  "new_mapper nm st =
     \<lparr>m_name = nm, m_publishers = [], m_stop = False, m_handles = [], m_queue = [],
      m_map_frame = [], m_path = [], m_tf_timeout = 0, m_publish_period = 0, m_pub_n = 0,
      members = st, pc = NotStarted, dpc = D40, loop_start = 0, loop_pub = 0, loop_n = 0,
      clock = 0, applied = [], published = [], cout = [], cerr = []\<rparr>"

subsection \<open>saveMap and checkPath\<close>

text \<open>
  \<^verbatim>\<open>saveMap(path)\<close> (lines 125 to 129) stores the directory of this mapper in
  \<^verbatim>\<open>path_\<close> and calls the derived class's \<^verbatim>\<open>saveMap()\<close>. The operator \<^verbatim>\<open>/\<close> of
  \<^verbatim>\<open>boost::filesystem::path\<close> puts one separator between the two parts.
\<close>

definition path_append :: "string \<Rightarrow> string \<Rightarrow> string" where
  "path_append a b =
     (if a = [] then b else if last a = CHR ''/'' then a @ b else a @ ''/'' @ b)"

definition saveMap ::
  "(('d, 'st) mapper \<Rightarrow> 'fs \<Rightarrow> (fault + bool) \<times> ('d, 'st) mapper \<times> 'fs) \<Rightarrow> string
     \<Rightarrow> ('d, 'st) mapper \<Rightarrow> 'fs \<Rightarrow> (fault + bool) \<times> ('d, 'st) mapper \<times> 'fs" where
  "saveMap saveMap_virtual path s fs =
     saveMap_virtual (s\<lparr>m_path := path_append path (m_name s)\<rparr>) fs"

text \<open>
  The file system is a value of a type \<open>'fs\<close>, read and changed only through the
  operations of \<^verbatim>\<open>boost::filesystem\<close>, \<^verbatim>\<open>std::ofstream\<close>, the serialisation of
  \<^verbatim>\<open>cslibs_ndt\<close> and the writer of the octree, all of them outside this repository.
  \<^verbatim>\<open>create_directories\<close> is called in the form that throws when it fails: it gives
  the file system it leaves and, if it throws, the exception. What \<^verbatim>\<open>saveMap\<close> gives
  is the value it returns or the exception that leaves it, together with the mapper and
  the file system as they are then.
\<close>

record ('oct, 'fs) storage =
  is_directory :: "string \<Rightarrow> 'fs \<Rightarrow> bool"
  create_directories :: "string \<Rightarrow> 'fs \<Rightarrow> fault option \<times> 'fs"
  create_directory :: "string \<Rightarrow> 'fs \<Rightarrow> bool \<times> 'fs"
  open_ofstream :: "string \<Rightarrow> 'fs \<Rightarrow> bool \<times> 'fs"
  write_tree :: "'oct \<Rightarrow> string \<Rightarrow> 'fs \<Rightarrow> bool \<times> 'fs"

text \<open>\<^verbatim>\<open>checkPath\<close> (lines 197 to 204).\<close>

definition checkPath ::
  "('oct, 'fs) storage \<Rightarrow> string \<Rightarrow> 'fs \<Rightarrow> (fault + bool) \<times> 'fs" where
  "checkPath io path fs =
     (case (if \<not> is_directory io path fs then create_directories io path fs else (None, fs)) of
        (Some f, fs1) \<Rightarrow> (Inl f, fs1)
      | (None, fs1) \<Rightarrow>
          if \<not> is_directory io path fs1 then (Inr False, fs1) else (Inr True, fs1))"

section \<open>OccupancyGridMapper3D\<close>

text \<open>
  The source of this class follows that of the publisher in
  \<^verbatim>\<open>src/publisher/pointcloud_publisher.cpp\<close>; the line numbers are those of that file.
\<close>

type_synonym point3d = "real \<times> real \<times> real"

text \<open>
  An observation carries its type; a \<^verbatim>\<open>Pointcloud3d\<close> has a frame, the start of its
  time frame and a pointer to its points, which may be null.
\<close>

record pointcloud3d =
  cloud_frame :: string
  cloud_time_start :: time
  cloud_points :: "point3d list option"

datatype data_t = Pointcloud3d pointcloud3d | OtherData string

text \<open>
  What the mapper calls outside this repository: the transform listener, the
  transforms and points of \<^verbatim>\<open>cslibs_math_3d\<close>, and the octree of \<^verbatim>\<open>octomap\<close>.
  \<^verbatim>\<open>insertPointCloud cloud origin\<close> stands for the call with the three further
  arguments \<^verbatim>\<open>-1, true, true\<close> of line 145.
\<close>

record ('tf, 'oct) external =
  lookupTransform :: "string \<Rightarrow> string \<Rightarrow> time \<Rightarrow> time \<Rightarrow> 'tf option"
  transform_point :: "'tf \<Rightarrow> point3d \<Rightarrow> point3d"
  translation :: "'tf \<Rightarrow> point3d"
  isNormal :: "point3d \<Rightarrow> bool"
  new_tree :: "real \<Rightarrow> 'oct"
  insertPointCloud :: "point3d list \<Rightarrow> point3d \<Rightarrow> 'oct \<Rightarrow> 'oct"
  updateInnerOccupancy :: "'oct \<Rightarrow> 'oct"

record 'oct occupancy_grid_map_3d =
  ogm_frame :: string
  ogm_resolution :: real
  ogm_tree :: 'oct

text \<open>
  The member \<^verbatim>\<open>map_\<close> of the derived class is a pointer: null until \<^verbatim>\<open>setupMap\<close>.
  The class declares no destructor of its own: the implicit one releases \<^verbatim>\<open>map_\<close>.
\<close>

type_synonym 'oct map_ptr = "'oct occupancy_grid_map_3d option"

definition ogm3d_getMap :: "('tf, 'oct) external \<Rightarrow> 'oct map_ptr \<Rightarrow> fault + 'oct map_ptr" where
  "ogm3d_getMap ext mp =
     (case mp of
        None \<Rightarrow> Inl NullPointer
      | Some m \<Rightarrow> Inr (Some (m\<lparr>ogm_tree := updateInnerOccupancy ext (ogm_tree m)\<rparr>)))"

definition ogm3d_setupMap ::
  "('tf, 'oct) external \<Rightarrow> node_handle \<Rightarrow> string \<Rightarrow> string \<Rightarrow> 'oct map_ptr
     \<Rightarrow> bool \<times> 'oct map_ptr" where
  "ogm3d_setupMap ext nh nm map_frame mp =
     (let resolution = param_double nh (param_name nm ''resolution'') 1
      in (True, Some \<lparr>ogm_frame = map_frame, ogm_resolution = resolution,
                       ogm_tree = new_tree ext resolution\<rparr>))"

definition ogm3d_uses :: "data_t \<Rightarrow> bool" where
  "ogm3d_uses d = (case d of Pointcloud3d c \<Rightarrow> True | OtherData ty \<Rightarrow> False)"

text \<open>The loop of lines 134 to 140, which fills \<^verbatim>\<open>cloud\<close>.\<close>

fun push_points ::
  "('tf, 'oct) external \<Rightarrow> 'tf \<Rightarrow> point3d list \<Rightarrow> point3d list \<Rightarrow> point3d list" where
  "push_points ext o_T_d [] cloud = cloud"
| "push_points ext o_T_d (point # rest) cloud =
     push_points ext o_T_d rest
       (if isNormal ext point then
          (let map_point = transform_point ext o_T_d point
           in if isNormal ext map_point then cloud @ [map_point] else cloud)
        else cloud)"

text \<open>\<^verbatim>\<open>process\<close> (lines 116 to 148), with the \<^verbatim>\<open>assert\<close> of line 118 active.\<close>

definition ogm3d_process ::
  "('tf, 'oct) external \<Rightarrow> string \<Rightarrow> time \<Rightarrow> data_t \<Rightarrow> 'oct map_ptr \<Rightarrow> fault + 'oct map_ptr" where
  "ogm3d_process ext map_frame tf_timeout d mp =
     (if \<not> ogm3d_uses d then Inl AssertionFailed
      else case d of
        OtherData ty \<Rightarrow> Inl TypeMismatch
      | Pointcloud3d cloud_data \<Rightarrow>
          (case lookupTransform ext map_frame (cloud_frame cloud_data)
                  (cloud_time_start cloud_data) tf_timeout of
             None \<Rightarrow> Inr mp
           | Some o_T_d \<Rightarrow>
               (case cloud_points cloud_data of
                  None \<Rightarrow> Inr mp
                | Some points \<Rightarrow>
                    (let cloud = push_points ext o_T_d points [];
                         origin = translation ext o_T_d
                     in case mp of
                          None \<Rightarrow> Inl NullPointer
                        | Some m \<Rightarrow>
                            Inr (Some (m\<lparr>ogm_tree :=
                                   insertPointCloud ext cloud origin (ogm_tree m)\<rparr>))))))"

definition ogm3d_vtable ::
  "('tf, 'oct) external \<Rightarrow> string \<Rightarrow> time \<Rightarrow> (data_t, 'oct map_ptr) vtable" where
  "ogm3d_vtable ext map_frame tf_timeout =
     \<lparr>setupMap = ogm3d_setupMap ext, uses = ogm3d_uses,
      process = ogm3d_process ext map_frame tf_timeout, getMap = ogm3d_getMap ext,
      destroy = (\<lambda>mp. None)\<rparr>"

text \<open>\<^verbatim>\<open>saveMap()\<close> (lines 150 to 185).\<close>

definition ogm3d_saveMap ::
  "('oct, 'fs) storage \<Rightarrow> ('d, 'oct map_ptr) mapper \<Rightarrow> 'fs
     \<Rightarrow> (fault + bool) \<times> ('d, 'oct map_ptr) mapper \<times> 'fs" where
  "ogm3d_saveMap io s fs =
     (case members s of
        None \<Rightarrow> (Inr True, s\<lparr>cout := cout s @ [NoMap]\<rparr>, fs)
      | Some m \<Rightarrow>
          (let s1 = s\<lparr>cout := cout s @ [SavingMap]\<rparr> in
           case checkPath io (m_path s1) fs of
             (Inl f, fs1) \<Rightarrow> (Inl f, s1, fs1)
           | (Inr False, fs1) \<Rightarrow>
               (Inr False, s1\<lparr>cout := cout s1 @ [IsNotADirectory (m_path s1)]\<rparr>, fs1)
           | (Inr True, fs1) \<Rightarrow>
               (case create_directory io (m_path s1) fs1 of
                  (False, fs2) \<Rightarrow> (Inr False, s1, fs2)
                | (True, fs2) \<Rightarrow>
                    (let map_path_yaml = path_append (m_path s1) ''map.ot'' in
                     case open_ofstream io map_path_yaml fs2 of
                       (False, fs3) \<Rightarrow>
                         (Inr False,
                          s1\<lparr>cout := cout s1 @ [CouldNotOpenFile map_path_yaml]\<rparr>, fs3)
                     | (True, fs3) \<Rightarrow>
                         (case write_tree io (ogm_tree m) map_path_yaml fs3 of
                            (True, fs4) \<Rightarrow> (Inr True, s1, fs4)
                          | (False, fs4) \<Rightarrow>
                              (Inr False,
                               s1\<lparr>cout := cout s1 @ [CouldNotWriteToFile map_path_yaml]\<rparr>,
                               fs4))))))"

section \<open>PointcloudPublisher (pointcloud_publisher.cpp)\<close>

text \<open>
  A map handed to a publisher: its frame and what it stores. The two variants this
  publisher knows hold a pointer to a grid map, which may be null; every other variant
  is represented by the name of its type.
\<close>

datatype ('g, 'og) map_t =
    NDTGridMap3D string "'g option"
  | OccupancyNDTGridMap3D string "'og option"
  | OtherMap string string

datatype map_type = NDTGridMap3D_type | OccupancyNDTGridMap3D_type | Other_type string

text \<open>
  Modelled from the spec: the variant tag of a map, \<^verbatim>\<open>getVariantTag() -> VariantId\<close>.
  The class \<^verbatim>\<open>Map\<close> of \<^verbatim>\<open>maps/map.hpp\<close> is not among the sources.
\<close>

definition getVariantTag :: "('g, 'og) map_t \<Rightarrow> map_type" where
  "getVariantTag m =
     (case m of
        NDTGridMap3D fr g \<Rightarrow> NDTGridMap3D_type
      | OccupancyNDTGridMap3D fr g \<Rightarrow> OccupancyNDTGridMap3D_type
      | OtherMap fr ty \<Rightarrow> Other_type ty)"

text \<open>
  Modelled from the spec: \<^verbatim>\<open>Map::isType\<close>, missing with \<^verbatim>\<open>maps/map.hpp\<close>, as the
  comparison of the stored variant tag with the requested one.
\<close>

definition isType :: "map_type \<Rightarrow> ('g, 'og) map_t \<Rightarrow> bool" where
  "isType ty m = (getVariantTag m = ty)"

text \<open>
  Modelled from the spec: \<^verbatim>\<open>Map::getFrame\<close>, missing with \<^verbatim>\<open>maps/map.hpp\<close>:
  \<^verbatim>\<open>getFrame() -> string\<close>, the coordinate frame label of the map.
\<close>

definition getFrame :: "('g, 'og) map_t \<Rightarrow> string" where
  "getFrame m =
     (case m of
        NDTGridMap3D fr g \<Rightarrow> fr
      | OccupancyNDTGridMap3D fr g \<Rightarrow> fr
      | OtherMap fr ty \<Rightarrow> fr)"

text \<open>
  Modelled from the spec: \<^verbatim>\<open>Map::as<NDTGridMap3D>\<close>, missing with \<^verbatim>\<open>maps/map.hpp\<close>:
  \<^verbatim>\<open>asVariant<T>() -> T or failure\<close>, which "fails with TypeMismatch if the requested
  variant does not match the stored one". What it returns is the pointer the map
  holds (\<^verbatim>\<open>.get()\<close>).
\<close>

definition as_NDTGridMap3D :: "('g, 'og) map_t \<Rightarrow> fault + 'g option" where
  "as_NDTGridMap3D m = (case m of NDTGridMap3D fr g \<Rightarrow> Inr g | _ \<Rightarrow> Inl TypeMismatch)"

text \<open>
  Modelled from the spec: \<^verbatim>\<open>Map::as<OccupancyNDTGridMap3D>\<close>, missing with
  \<^verbatim>\<open>maps/map.hpp\<close>, in the same way.
\<close>

definition as_OccupancyNDTGridMap3D :: "('g, 'og) map_t \<Rightarrow> fault + 'og option" where
  "as_OccupancyNDTGridMap3D m =
     (case m of OccupancyNDTGridMap3D fr g \<Rightarrow> Inr g | _ \<Rightarrow> Inl TypeMismatch)"

text \<open>The message, the inverse model and the members of the publisher.\<close>

record 'pl pointcloud2 =
  msg_stamp :: time
  msg_frame_id :: string
  msg_data :: 'pl

record inverse_model =
  prob_prior :: real
  prob_free :: real
  prob_occupied :: real

text \<open>
  \<open>pp_sent\<close> is what \<^verbatim>\<open>publisher_.publish(msg)\<close> has been called with, \<open>pp_cout\<close>
  what the publisher has written to \<^verbatim>\<open>std::cout\<close>.
\<close>

record 'pl pointcloud_publisher =
  pp_name :: string
  pp_ivm :: "inverse_model option"
  pp_occ_threshold :: real
  pp_sent :: "'pl pointcloud2 list"
  pp_cout :: "message list"

text \<open>The two conversions \<^verbatim>\<open>cslibs_ndt_3d::conversion::from\<close>, outside this repository.\<close>

record ('g, 'og, 'pl) conversion =
  from_ndt :: "'g \<Rightarrow> 'pl"
  from_occupancy_ndt :: "'og \<Rightarrow> inverse_model \<Rightarrow> real \<Rightarrow> 'pl"

definition pcp_uses :: "('g, 'og) map_t \<Rightarrow> bool" where
  "pcp_uses m = (isType NDTGridMap3D_type m \<or> isType OccupancyNDTGridMap3D_type m)"

definition doAdvertise ::
  "node_handle \<Rightarrow> 'pl pointcloud_publisher \<Rightarrow> 'pl pointcloud_publisher" where
  "doAdvertise nh p =
     (let nm = pp_name p;
          occupancy_ndt = param_bool nh (param_name nm ''occupancy_ndt'') False
      in if occupancy_ndt
         then p\<lparr>pp_ivm :=
                  Some \<lparr>prob_prior = param_double nh (param_name nm ''prob_prior'') (1 / 2),
                        prob_free = param_double nh (param_name nm ''prob_free'') (45 / 100),
                        prob_occupied =
                          param_double nh (param_name nm ''prob_occupied'') (65 / 100)\<rparr>,
                pp_occ_threshold :=
                  param_double nh (param_name nm ''occ_threshold'') (169 / 1000)\<rparr>
         else p)"

definition publishNDTGridMap3D ::
  "('g, 'og, 'pl) conversion \<Rightarrow> ('g, 'og) map_t \<Rightarrow> time \<Rightarrow> 'pl pointcloud_publisher
     \<Rightarrow> fault + 'pl pointcloud_publisher" where
  "publishNDTGridMap3D cv m t p =
     (case as_NDTGridMap3D m of
        Inl f \<Rightarrow> Inl f
      | Inr None \<Rightarrow> Inr (p\<lparr>pp_cout := pp_cout p @ [MapCouldNotBePublished]\<rparr>)
      | Inr (Some g) \<Rightarrow>
          Inr (p\<lparr>pp_sent := pp_sent p @
                  [\<lparr>msg_stamp = t, msg_frame_id = getFrame m, msg_data = from_ndt cv g\<rparr>]\<rparr>))"

definition publishOccupancyNDTGridMap3D ::
  "('g, 'og, 'pl) conversion \<Rightarrow> ('g, 'og) map_t \<Rightarrow> time \<Rightarrow> 'pl pointcloud_publisher
     \<Rightarrow> fault + 'pl pointcloud_publisher" where
  "publishOccupancyNDTGridMap3D cv m t p =
     (case pp_ivm p of
        None \<Rightarrow> Inr (p\<lparr>pp_cout := pp_cout p @ [MapCouldNotBePublished]\<rparr>)
      | Some ivm \<Rightarrow>
          (case as_OccupancyNDTGridMap3D m of
             Inl f \<Rightarrow> Inl f
           | Inr None \<Rightarrow> Inr (p\<lparr>pp_cout := pp_cout p @ [MapCouldNotBePublished]\<rparr>)
           | Inr (Some g) \<Rightarrow>
               Inr (p\<lparr>pp_sent := pp_sent p @
                       [\<lparr>msg_stamp = t, msg_frame_id = getFrame m,
                         msg_data = from_occupancy_ndt cv g ivm (pp_occ_threshold p)\<rparr>]\<rparr>)))"

definition doPublish ::
  "('g, 'og, 'pl) conversion \<Rightarrow> ('g, 'og) map_t \<Rightarrow> time \<Rightarrow> 'pl pointcloud_publisher
     \<Rightarrow> fault + 'pl pointcloud_publisher" where
  "doPublish cv m t p =
     (if isType NDTGridMap3D_type m then publishNDTGridMap3D cv m t p
      else if isType OccupancyNDTGridMap3D_type m then publishOccupancyNDTGridMap3D cv m t p
      else Inr (p\<lparr>pp_cout := pp_cout p @ [GotWrongMapType]\<rparr>))"

section \<open>Predicates and reference definitions of the properties\<close>

text \<open>Every observation waiting in the queue or already applied passed \<^verbatim>\<open>uses\<close>.\<close>

definition accepted_only :: "('d, 'st) vtable \<Rightarrow> ('d, 'st) mapper \<Rightarrow> bool" where
  "accepted_only vt s = (list_all (uses vt) (m_queue s) \<and> list_all (uses vt) (applied s))"

text \<open>A fault has ended the process.\<close>

definition aborted :: "('d, 'st) mapper \<Rightarrow> bool" where
  "aborted s = (case pc s of Aborted f \<Rightarrow> True | _ \<Rightarrow> False)"

text \<open>The number of applied observations whose check of the clock is still to come.\<close>

definition awaiting_check :: "('d, 'st) mapper \<Rightarrow> nat" where
  "awaiting_check s = (if pc s = L175 then 1 else 0)"

text \<open>
  Nothing is queued, nothing has been published, and the worker is not inside the
  inner loop.
\<close>

definition idle :: "('d, 'st) mapper \<Rightarrow> bool" where
  "idle s =
     (m_queue s = [] \<and> published s = [] \<and> pc s \<noteq> L170 \<and> pc s \<noteq> L173 \<and> pc s \<noteq> L175)"

text \<open>
  With a period of zero the clock is due at every check: once the prologue of the loop
  has run, the next due time never lies ahead of the clock.
\<close>

definition always_due :: "('d, 'st) mapper \<Rightarrow> bool" where
  "always_due s =
     (m_publish_period s = 0 \<and>
      (pc s = NotStarted \<or> pc s = L156 \<or> aborted s \<or> loop_pub s \<le> clock s))"

text \<open>
  Unless a fault has ended the process, the recipients of the deliveries so far are the
  publishers \<open>ps\<close>, all of them and in their order, once for every applied observation
  whose check of the clock is over.
\<close>

definition delivered_to_each :: "string list \<Rightarrow> ('d, 'st) mapper \<Rightarrow> bool" where
  "delivered_to_each ps s =
     (m_publishers s = ps \<and>
      (aborted s \<or>
       map fst (published s) @ concat (replicate (awaiting_check s) ps) =
         concat (replicate (length (applied s)) ps)))"

text \<open>The event is a delivery by a data provider.\<close>

fun is_Callback :: "'d event \<Rightarrow> bool" where
  "is_Callback (Callback d) = True"
| "is_Callback e = False"

text \<open>
  The cloud as the specification words it: every point is transformed, and the points
  that are not well-formed after the transform are discarded.
\<close>

definition spec_cloud :: "('tf, 'oct) external \<Rightarrow> 'tf \<Rightarrow> point3d list \<Rightarrow> point3d list" where
  "spec_cloud ext o_T_d points = filter (isNormal ext) (map (transform_point ext o_T_d) points)"

section \<open>A concrete mapper for the runs of the examples\<close>

text \<open>
  An instance of the external collaborators. A transform is a translation, given by
  its vector, and is known for the frame \<^verbatim>\<open>laser\<close> only; a point is normal when none
  of its coordinates is zero, which is what \<^verbatim>\<open>std::isnormal\<close> says of a real number;
  an octree is the list of the points inserted so far.
\<close>

definition demo_lookup :: "string \<Rightarrow> string \<Rightarrow> time \<Rightarrow> time \<Rightarrow> point3d option" where
  "demo_lookup target source t timeout = (if source = ''laser'' then Some (1, 0, 0) else None)"

definition demo_translate :: "point3d \<Rightarrow> point3d \<Rightarrow> point3d" where
  "demo_translate v p =
     (fst v + fst p, fst (snd v) + fst (snd p), snd (snd v) + snd (snd p))"

definition demo_isNormal :: "point3d \<Rightarrow> bool" where
  "demo_isNormal p = (fst p \<noteq> 0 \<and> fst (snd p) \<noteq> 0 \<and> snd (snd p) \<noteq> 0)"

definition demo_insert :: "point3d list \<Rightarrow> point3d \<Rightarrow> point3d list \<Rightarrow> point3d list" where
  "demo_insert cloud origin tree = tree @ cloud"

definition demo_ext :: "(point3d, point3d list) external" where
  "demo_ext =
     \<lparr>lookupTransform = demo_lookup, transform_point = demo_translate, translation = id,
      isNormal = demo_isNormal, new_tree = (\<lambda>resolution. []),
      insertPointCloud = demo_insert, updateInnerOccupancy = id\<rparr>"

definition demo_vt :: "(data_t, point3d list map_ptr) vtable" where
  "demo_vt = ogm3d_vtable demo_ext ''/map'' (1 / 10)"

text \<open>Two node handles: a publish rate of 10 Hz, and a publish rate of 0.\<close>

definition demo_nh :: node_handle where
  "demo_nh =
     [''mapper/data_providers'' \<mapsto> PStrings [''laser''],
      ''mapper/map_publishers'' \<mapsto> PStrings [''cloud''],
      ''mapper/publish_rate'' \<mapsto> PDouble 10]"

definition demo_nh_rate0 :: node_handle where
  "demo_nh_rate0 =
     [''mapper/data_providers'' \<mapsto> PStrings [''laser''],
      ''mapper/map_publishers'' \<mapsto> PStrings [''cloud''],
      ''mapper/publish_rate'' \<mapsto> PDouble 0]"

definition demo_nh_no_publishers :: node_handle where
  "demo_nh_no_publishers = [''mapper/data_providers'' \<mapsto> PStrings [''laser'']]"

definition demo_new :: "(data_t, point3d list map_ptr) mapper" where
  "demo_new = new_mapper ''mapper'' None"

definition demo_map :: "point3d list occupancy_grid_map_3d" where
  "demo_map = \<lparr>ogm_frame = ''/map'', ogm_resolution = 1, ogm_tree = []\<rparr>"

text \<open>The mapper after \<^verbatim>\<open>setup\<close> with \<open>demo_nh\<close>, and after \<^verbatim>\<open>setup\<close> with \<open>demo_nh_rate0\<close>.\<close>

definition demo_configured :: "(data_t, point3d list map_ptr) mapper" where
  "demo_configured =
     demo_new\<lparr>m_map_frame := ''/map'', m_publish_period := 1 / 10, m_tf_timeout := 1 / 10,
              m_pub_n := 10, m_handles := [''laser''], m_publishers := [''cloud''],
              cout := [UsingDataProviders [''laser''], UsingPublishers [''cloud'']],
              members := Some demo_map\<rparr>"

definition demo_configured_rate0 :: "(data_t, point3d list map_ptr) mapper" where
  "demo_configured_rate0 = demo_configured\<lparr>m_publish_period := 0\<rparr>"

text \<open>
  Three observations: a cloud in the frame \<^verbatim>\<open>laser\<close>, one of its two points with a
  coordinate that is zero; a cloud in a frame no transform is known for; and an
  observation of another type.
\<close>

definition demo_cloud_data :: pointcloud3d where
  "demo_cloud_data =
     \<lparr>cloud_frame = ''laser'', cloud_time_start = 0,
      cloud_points = Some [(1, 2, 3), (0, 1, 1)]\<rparr>"

definition demo_cloud :: data_t where
  "demo_cloud = Pointcloud3d demo_cloud_data"

definition demo_lost_data :: pointcloud3d where
  "demo_lost_data =
     \<lparr>cloud_frame = ''camera'', cloud_time_start = 0, cloud_points = Some [(4, 5, 6)]\<rparr>"

definition demo_lost :: data_t where
  "demo_lost = Pointcloud3d demo_lost_data"

definition demo_scan :: data_t where
  "demo_scan = OtherData ''Laserscan''"

text \<open>A file system for the examples: the list of the paths created so far.\<close>

definition demo_io :: "(point3d list, string list) storage" where
  "demo_io =
     \<lparr>is_directory = (\<lambda>path fs. path \<in> set fs),
      create_directories = (\<lambda>path fs. (None, fs @ [path])),
      create_directory = (\<lambda>path fs. (True, fs)),
      open_ofstream = (\<lambda>path fs. (True, fs @ [path])),
      write_tree = (\<lambda>tree path fs. (True, fs))\<rparr>"

text \<open>A publisher and a conversion for the examples: the payload is a number of cells.\<close>

definition demo_publisher :: "nat pointcloud_publisher" where
  "demo_publisher =
     \<lparr>pp_name = ''cloud'', pp_ivm = None, pp_occ_threshold = 0, pp_sent = [], pp_cout = []\<rparr>"

definition demo_conversion :: "(nat list, nat list, nat) conversion" where
  "demo_conversion = \<lparr>from_ndt = length, from_occupancy_ndt = (\<lambda>g ivm thr. length g)\<rparr>"

text \<open>
  The mapper with one observation queued and the loop about to execute line 173: the
  test of line 170 has found the stop flag false.
\<close>

definition demo_committed :: "(data_t, point3d list map_ptr) mapper" where
  "demo_committed =
     run demo_vt [Start, Worker, Callback demo_cloud, Worker, Worker, Worker, Worker]
       demo_configured"

text \<open>
  The mapper with a backlog of two observations, the loop about to execute line 173
  for the first of them; the next publication is due at 0.1 s.
\<close>

definition demo_backlog :: "(data_t, point3d list map_ptr) mapper" where
  "demo_backlog =
     run demo_vt
       [Start, Worker, Callback demo_cloud, Callback demo_lost, Worker, Worker, Worker, Worker]
       demo_configured"

text \<open>
  The same with the observation whose transform is unknown at the head of the queue.
\<close>

definition demo_lost_first :: "(data_t, point3d list map_ptr) mapper" where
  "demo_lost_first =
     run demo_vt
       [Start, Worker, Callback demo_lost, Callback demo_cloud, Worker, Worker, Worker, Worker]
       demo_configured"

text \<open>A map of a variant the publisher does not know.\<close>

definition demo_other_map :: "(nat list, nat list) map_t" where
  "demo_other_map = OtherMap ''/map'' ''OccupancyGridMap3D''"

section \<open>Facts about publish\<close>

lemma publish_to_frame [simp]:
  "m_queue (publish_to vt ps s) = m_queue s"
  "applied (publish_to vt ps s) = applied s"
  "m_stop (publish_to vt ps s) = m_stop s"
  "dpc (publish_to vt ps s) = dpc s"
  "m_publishers (publish_to vt ps s) = m_publishers s"
  "m_publish_period (publish_to vt ps s) = m_publish_period s"
  "clock (publish_to vt ps s) = clock s"
  "loop_pub (publish_to vt ps s) = loop_pub s"
  by (induction ps arbitrary: s; simp split: sum.splits)+

lemma publish_to_pc: "pc (publish_to vt ps s) = pc s \<or> aborted (publish_to vt ps s)"
proof (induction ps arbitrary: s)
  case Nil
  show ?case by simp
next
  case (Cons p ps)
  show ?case
  proof (cases "getMap vt (members s)")
    case (Inl f)
    then show ?thesis by (simp add: aborted_def)
  next
    case (Inr m)
    with Cons [of "s\<lparr>members := m, published := published s @ [(p, m, clock s)]\<rparr>"]
    show ?thesis by simp
  qed
qed

lemma publish_to_deliveries:
  "\<not> aborted s \<Longrightarrow> \<not> aborted (publish_to vt ps s) \<Longrightarrow>
   \<exists>new. published (publish_to vt ps s) = published s @ new \<and> map fst new = ps \<and>
         list_all (\<lambda>x. snd (snd x) = clock s) new"
proof (induction ps arbitrary: s)
  case Nil
  show ?case by simp
next
  case (Cons p ps)
  show ?case
  proof (cases "getMap vt (members s)")
    case (Inl f)
    with Cons.prems show ?thesis by (simp add: aborted_def)
  next
    case (Inr m)
    let ?s = "s\<lparr>members := m, published := published s @ [(p, m, clock s)]\<rparr>"
    have "\<not> aborted ?s" using Cons.prems(1) by (simp add: aborted_def)
    moreover have "\<not> aborted (publish_to vt ps ?s)" using Cons.prems(2) Inr by simp
    ultimately obtain new where
      "published (publish_to vt ps ?s) = published ?s @ new" "map fst new = ps"
      "list_all (\<lambda>x. snd (snd x) = clock ?s) new"
      using Cons.IH [of ?s] by blast
    then show ?thesis using Inr
      by (intro exI [of _ "(p, m, clock s) # new"]) simp
  qed
qed

lemma publish_to_length:
  "\<not> aborted s \<Longrightarrow> \<not> aborted (publish_to vt ps s) \<Longrightarrow>
   length (published (publish_to vt ps s)) = length (published s) + length ps"
  using publish_to_deliveries [of s vt ps] by (auto dest: arg_cong [where f = length])

section \<open>Facts about runs\<close>

lemma pure_virtual_simps [simp]:
  "uses (pure_virtual vt) = uses vt"
  "process (pure_virtual vt) = (\<lambda>d st. Inl PureVirtualCall)"
  "getMap (pure_virtual vt) = (\<lambda>st. Inl PureVirtualCall)"
  "destroy (pure_virtual vt) = destroy vt"
  by (simp_all add: pure_virtual_def)

lemma run_Nil [simp]: "run vt [] s = s"
  by (simp add: run_def)

lemma run_Cons [simp]:
  "run vt (e # es) s =
     (if begins_destruction e s then exec False vt es (step vt e s)
      else run vt es (step vt e s))"
  by (simp add: run_def)

text \<open>
  A property that every step keeps, with the virtual functions of the derived class
  and with the pure ones, and that a fault keeps, holds throughout every run.
\<close>

lemma exec_invariant:
  assumes "\<And>e s. P s \<Longrightarrow> ok e \<Longrightarrow> P (step vt e s)"
    and "\<And>e s. P s \<Longrightarrow> ok e \<Longrightarrow> P (step (pure_virtual vt) e s)"
    and "\<And>s. P s \<Longrightarrow> P (s\<lparr>pc := Aborted PureVirtualCall\<rparr>)"
    and "P s" and "\<forall>e\<in>set evs. ok e"
  shows "P (exec derived vt evs s)"
  using assms(4,5)
proof (induction evs arbitrary: derived s)
  case Nil
  then show ?case by simp
next
  case (Cons e evs)
  have "P (step vt e s)" using assms(1) Cons.prems by simp
  moreover have "P (step_destroyed vt e s)"
    using assms(2) [of s e] assms(3) [of s] Cons.prems by (cases e) simp_all
  ultimately show ?case using Cons.IH Cons.prems(2) by simp
qed

lemma run_invariant:
  assumes "\<And>e s. P s \<Longrightarrow> ok e \<Longrightarrow> P (step vt e s)"
    and "\<And>e s. P s \<Longrightarrow> ok e \<Longrightarrow> P (step (pure_virtual vt) e s)"
    and "\<And>s. P s \<Longrightarrow> P (s\<lparr>pc := Aborted PureVirtualCall\<rparr>)"
    and "P s" and "\<forall>e\<in>set evs. ok e"
  shows "P (run vt evs s)"
  unfolding run_def using assms by (rule exec_invariant)

text \<open>The definitions a concrete run is evaluated with.\<close>

lemmas demo_simps =
  demo_vt_def ogm3d_vtable_def ogm3d_process_def ogm3d_getMap_def ogm3d_uses_def
  demo_ext_def demo_lookup_def demo_translate_def demo_isNormal_def demo_insert_def
  demo_configured_def demo_configured_rate0_def demo_new_def new_mapper_def demo_map_def
  demo_cloud_def demo_cloud_data_def demo_lost_def demo_lost_data_def demo_scan_def
  demo_backlog_def demo_lost_first_def demo_committed_def
  loop_step_def callback_def start_def dtor_step_def publish_def Let_def

section \<open>The acceptance filter\<close>

lemma loop_step_accepted: "accepted_only vt s \<Longrightarrow> accepted_only vt (loop_step vt s)"
  by (auto simp: accepted_only_def loop_step_def publish_def Let_def
      split: loop_pc.splits list.splits sum.splits)

lemma step_accepted: "accepted_only vt s \<Longrightarrow> accepted_only vt (step vt e s)"
proof (cases e)
  case Worker
  then show "accepted_only vt s \<Longrightarrow> ?thesis" by (simp add: loop_step_accepted)
qed (auto simp: accepted_only_def callback_def start_def dtor_step_def
      split: dtor_pc.splits list.splits)

lemma accepted_only_pure [simp]: "accepted_only (pure_virtual vt) s = accepted_only vt s"
  by (simp add: accepted_only_def)

lemma run_accepted:
  assumes "accepted_only vt s"
  shows "accepted_only vt (run vt evs s)"
proof (rule run_invariant [where ok = "\<lambda>e. True"])
  show "accepted_only vt (step (pure_virtual vt) e s)" if "accepted_only vt s" for e s
    using step_accepted [of "pure_virtual vt" s e] that by simp
qed (simp_all add: step_accepted assms, simp add: accepted_only_def)

text \<open>
  Claim C5. An observation \<open>d\<close> that \<^verbatim>\<open>uses\<close> rejects is not enqueued: the callback
  leaves the mapper, and so its queue, as it was. And in no run of a mapper that began
  with an empty queue and nothing applied, whatever the schedule and however often
  \<open>d\<close> is delivered, is \<open>d\<close> in the queue or among the observations handed to
  \<^verbatim>\<open>process\<close>.
\<close>

theorem rejected_observation_never_queued_nor_processed:
  assumes "\<not> uses vt d" and "m_queue s0 = []" and "applied s0 = []"
  shows "callback vt d s = s \<and>
         d \<notin> set (m_queue (run vt evs s0)) \<and> d \<notin> set (applied (run vt evs s0))"
proof -
  have "accepted_only vt s0" using assms by (simp add: accepted_only_def)
  then have "accepted_only vt (run vt evs s0)" by (rule run_accepted)
  with assms(1) show ?thesis
    by (auto simp: accepted_only_def callback_def list_all_iff)
qed

theorem rejected_observation_witness:
  "\<not> uses demo_vt demo_scan \<and> m_queue demo_configured = [] \<and> applied demo_configured = [] \<and>
   callback demo_vt demo_scan demo_configured = demo_configured \<and>
   demo_scan \<notin> set (m_queue (run demo_vt
     [Start, Callback demo_scan, Worker, Callback demo_cloud, Worker, Worker, Callback demo_scan,
      Worker, Worker, Worker] demo_configured)) \<and>
   demo_scan \<notin> set (applied (run demo_vt
     [Start, Callback demo_scan, Worker, Callback demo_cloud, Worker, Worker, Callback demo_scan,
      Worker, Worker, Worker] demo_configured))"
proof -
  have h: "\<not> uses demo_vt demo_scan" "m_queue demo_configured = []" "applied demo_configured = []"
    by (simp_all add: demo_simps)
  from rejected_observation_never_queued_nor_processed [OF h, where s = demo_configured and evs =
      "[Start, Callback demo_scan, Worker, Callback demo_cloud, Worker, Worker, Callback demo_scan,
        Worker, Worker, Worker]"] h
  show ?thesis by simp
qed

section \<open>Stopping\<close>

text \<open>
  Claim C1 says that after the stop is requested the worker applies no further
  observation, that what is still queued is discarded, and that the worker thread then
  terminates and is joined. The code requests the stop at one place only, line 40 of
  \<^verbatim>\<open>~Mapper\<close>, when the object is no longer of the derived class. In the run below the
  worker has passed the test of line 170 with the flag still false, and one observation
  is queued. The destruction begins: the map is released and the flag is set, with the
  observation still in the queue. The worker's next step, line 173, calls
  \<^verbatim>\<open>process\<close>, which is pure virtual by now, and the process ends: the observation is
  popped but not applied, the loop never returns, and the destructor finds the queue
  empty and never completes its join.
\<close>

theorem stop_request_meets_pure_virtual_call:
  "pc demo_committed = L173 \<and> \<not> m_stop demo_committed \<and>
   m_queue demo_committed = [demo_cloud] \<and> members demo_committed = Some demo_map \<and>
   m_stop (run demo_vt [Destructor] demo_committed) \<and>
   m_queue (run demo_vt [Destructor] demo_committed) = [demo_cloud] \<and>
   members (run demo_vt [Destructor] demo_committed) = None \<and>
   pc (run demo_vt [Destructor, Worker] demo_committed) = Aborted PureVirtualCall \<and>
   applied (run demo_vt [Destructor, Worker] demo_committed) = [] \<and>
   m_queue (run demo_vt [Destructor, Worker] demo_committed) = [] \<and>
   dpc (run demo_vt [Destructor, Worker, Destructor, Destructor, Destructor] demo_committed) =
     D46"
  by (simp add: demo_simps)


section \<open>Configuration\<close>

lemma connect_providers_eq:
  "connect_providers dps ds s =
     (case find (\<lambda>d. d \<notin> dps) ds of
        Some d \<Rightarrow> Inl (CannotFindDataProvider d)
      | None \<Rightarrow> Inr (s\<lparr>m_handles := m_handles s @ ds\<rparr>))"
  by (induction ds arbitrary: s) (simp_all split: option.splits)

lemma bind_publishers_eq:
  "bind_publishers pubs ps s =
     (case find (\<lambda>p. p \<notin> pubs) ps of
        Some p \<Rightarrow> Inl (CannotFindPublisher p)
      | None \<Rightarrow> Inr (s\<lparr>m_publishers := m_publishers s @ ps\<rparr>))"
  by (induction ps arbitrary: s) (simp_all split: option.splits)

lemma mapper_setup_frame:
  assumes "mapper_setup vt nh dps pubs m0 = Inr s"
  shows "pc s = pc m0" and "applied s = applied m0" and "published s = published m0"
    and "m_queue s = m_queue m0" and "clock s = clock m0"
    and "m_publish_period s =
          (if param_double nh (param_name (m_name m0) ''publish_rate'') 10 = 0 then 0
           else 1 / param_double nh (param_name (m_name m0) ''publish_rate'') 10)"
  using assms
  by (auto simp: mapper_setup_def connect_providers_eq bind_publishers_eq Let_def
      split: if_splits option.splits prod.splits)

lemmas setup_simps =
  mapper_setup_def demo_vt_def ogm3d_vtable_def ogm3d_setupMap_def demo_nh_def
  demo_nh_rate0_def demo_nh_no_publishers_def demo_new_def new_mapper_def
  demo_configured_def demo_configured_rate0_def demo_map_def demo_ext_def param_name_def
  param_double_def param_string_def param_int_def getParam_strings_def Let_def

lemma demo_setup:
  "mapper_setup demo_vt demo_nh {''laser''} {''cloud''} demo_new = Inr demo_configured"
  by (simp add: setup_simps)

lemma demo_setup_rate0:
  "mapper_setup demo_vt demo_nh_rate0 {''laser''} {''cloud''} demo_new =
     Inr demo_configured_rate0"
  by (simp add: setup_simps)

text \<open>
  Claim C6. \<^verbatim>\<open>setup\<close> throws exactly when the list of data provider names is empty,
  or one of these names is not a key of the provider registry, or one of the publisher
  names is not a key of the publisher registry, or \<^verbatim>\<open>setupMap\<close> returns false. An
  empty list of publisher names does not make it throw: it writes the one warning to
  \<^verbatim>\<open>std::cerr\<close> and binds no publisher.
\<close>

theorem setup_fails_exactly_when:
  assumes "names = getParam_strings nh (param_name (m_name s0) ''data_providers'')"
    and "pnames = getParam_strings nh (param_name (m_name s0) ''map_publishers'')"
    and "frame = param_string nh (param_name (m_name s0) ''map_frame'') ''/map''"
  shows "((\<exists>e. mapper_setup vt nh dps pubs s0 = Inl e) \<longleftrightarrow>
            names = [] \<or> (\<exists>d\<in>set names. d \<notin> dps) \<or> (\<exists>p\<in>set pnames. p \<notin> pubs) \<or>
            \<not> fst (setupMap vt nh (m_name s0) frame (members s0))) \<and>
         (\<forall>s. pnames = [] \<and> mapper_setup vt nh dps pubs s0 = Inr s \<longrightarrow>
            cerr s = cerr s0 @ [UsingNoPublishers] \<and> m_publishers s = m_publishers s0)"
  unfolding assms
  by (auto simp: mapper_setup_def connect_providers_eq bind_publishers_eq Let_def
      find_None_iff find_Some_iff split: option.splits prod.splits if_splits)

text \<open>
  Runs of the theorem: no publisher configured (success, with the warning), a publisher
  missing from its registry, a provider missing from its registry, no provider
  configured.
\<close>

theorem setup_witness:
  "mapper_setup demo_vt demo_nh_no_publishers {''laser''} {} demo_new =
     Inr (demo_configured\<lparr>m_publishers := [], cout := [UsingDataProviders [''laser'']],
                           cerr := [UsingNoPublishers]\<rparr>) \<and>
   mapper_setup demo_vt demo_nh {''laser''} {} demo_new = Inl (CannotFindPublisher ''cloud'') \<and>
   mapper_setup demo_vt demo_nh {} {''cloud''} demo_new = Inl (CannotFindDataProvider ''laser'') \<and>
   mapper_setup demo_vt Map.empty {''laser''} {''cloud''} demo_new = Inl NoDataProviders"
proof -
  have "mapper_setup demo_vt demo_nh_no_publishers {''laser''} {} demo_new =
     Inr (demo_configured\<lparr>m_publishers := [], cout := [UsingDataProviders [''laser'']],
                           cerr := [UsingNoPublishers]\<rparr>)"
    "mapper_setup demo_vt demo_nh {''laser''} {} demo_new = Inl (CannotFindPublisher ''cloud'')"
    "mapper_setup demo_vt demo_nh {} {''cloud''} demo_new = Inl (CannotFindDataProvider ''laser'')"
    "mapper_setup demo_vt Map.empty {''laser''} {''cloud''} demo_new = Inl NoDataProviders"
    by (simp_all add: setup_simps)
  with setup_fails_exactly_when [OF refl refl refl, of demo_vt demo_nh_no_publishers "{''laser''}" "{}" demo_new]
  show ?thesis by simp
qed

section \<open>The cadence\<close>

lemma step_idle:
  "idle s \<Longrightarrow> \<not> is_Callback e \<Longrightarrow> idle (step vt e s) \<and> applied (step vt e s) = applied s"
  by (cases e; cases "pc s")
    (auto simp: idle_def loop_step_def start_def dtor_step_def split: dtor_pc.splits)

lemma run_idle:
  assumes "idle s" and "\<forall>e\<in>set evs. \<not> is_Callback e"
  shows "idle (run vt evs s) \<and> applied (run vt evs s) = applied s"
proof (rule run_invariant [where ok = "\<lambda>e. \<not> is_Callback e"
      and P = "\<lambda>s'. idle s' \<and> applied s' = applied s"])
  show "idle (s'\<lparr>pc := Aborted PureVirtualCall\<rparr>) \<and>
      applied (s'\<lparr>pc := Aborted PureVirtualCall\<rparr>) = applied s"
    if "idle s' \<and> applied s' = applied s" for s'
    using that by (simp add: idle_def)
qed (use assms step_idle in auto)

text \<open>
  Claim C2, as amended. A mapper that receives no observation never publishes, whatever
  its cadence and however long it runs: in every schedule without a delivery, started
  from a mapper with an empty queue, nothing is published and nothing is applied.
  (The loop reads the clock and publishes only at line 175, right after an observation
  has been applied.)
\<close>

theorem no_observation_no_publication:
  assumes "m_queue s0 = []" and "published s0 = []" and "pc s0 = NotStarted"
    and "\<forall>e\<in>set evs. \<not> is_Callback e"
  shows "published (run vt evs s0) = [] \<and> applied (run vt evs s0) = applied s0"
proof -
  have "idle s0" using assms(1-3) by (simp add: idle_def)
  from run_idle [OF this assms(4), of vt] show ?thesis by (simp add: idle_def)
qed

theorem idle_mapper_witness:
  "m_queue demo_configured = [] \<and> published demo_configured = [] \<and>
   pc demo_configured = NotStarted \<and>
   list_all (\<lambda>e. \<not> is_Callback e)
     [Start, Worker, Worker, Worker, Tick 1, Worker, Worker, Worker, Destructor, Worker,
      Worker, Worker, Worker :: data_t event] \<and>
   published (run demo_vt
     [Start, Worker, Worker, Worker, Tick 1, Worker, Worker, Worker, Destructor, Worker, Worker,
      Worker, Worker]
     demo_configured) = [] \<and>
   applied (run demo_vt
     [Start, Worker, Worker, Worker, Tick 1, Worker, Worker, Worker, Destructor, Worker, Worker,
      Worker, Worker]
     demo_configured) = [] \<and>
   pc (run demo_vt
     [Start, Worker, Worker, Worker, Tick 1, Worker, Worker, Worker, Destructor, Worker, Worker,
      Worker, Worker]
     demo_configured) = Exited"
proof -
  have h: "m_queue demo_configured = []" "published demo_configured = []"
    "pc demo_configured = NotStarted"
    "\<forall>e\<in>set [Start, Worker, Worker, Worker, Tick 1, Worker, Worker, Worker, Destructor, Worker,
      Worker, Worker, Worker :: data_t event]. \<not> is_Callback e"
    by (simp_all add: demo_simps)
  have "pc (run demo_vt
     [Start, Worker, Worker, Worker, Tick 1, Worker, Worker, Worker, Destructor, Worker, Worker,
      Worker, Worker]
     demo_configured) = Exited" "applied demo_configured = []"
    by (simp_all add: demo_simps)
  with no_observation_no_publication [OF h, of demo_vt] h(1-3) show ?thesis by simp
qed

text \<open>
  The claim as it is written fails: with a cadence of 0.1 s, one registered publisher
  and no observation, the worker wakes from its wait again and again, and after 10.1 s
  nothing has been published.
\<close>

theorem idle_mapper_counterexample:
  "m_publish_period demo_configured = 1 / 10 \<and> m_publishers demo_configured = [''cloud''] \<and>
   clock (run demo_vt
     [Start, Worker, Worker, Worker, Tick (1 / 10), Worker, Worker, Worker, Worker, Tick 10,
      Worker, Worker, Worker, Worker] demo_configured) = 101 / 10 \<and>
   published (run demo_vt
     [Start, Worker, Worker, Worker, Tick (1 / 10), Worker, Worker, Worker, Worker, Tick 10,
      Worker, Worker, Worker, Worker] demo_configured) = []"
  by (simp add: demo_simps)

lemma step_always_due: "always_due s \<Longrightarrow> always_due (step vt e s)"
  using publish_to_pc [of vt "m_publishers s" s]
  by (cases e; cases "pc s")
    (auto simp: always_due_def aborted_def loop_step_def publish_def Let_def callback_def start_def
      dtor_step_def split: dtor_pc.splits list.splits sum.splits loop_pc.splits)

lemma concat_replicate_commute: "concat (replicate n xs) @ xs = xs @ concat (replicate n xs)"
  by (induction n) simp_all

lemma loop_step_delivered:
  assumes "always_due s" and "delivered_to_each ps s"
  shows "delivered_to_each ps (loop_step vt s)"
proof (cases "pc s = L175")
  case True
  then have due: "loop_pub s \<le> clock s" using assms(1)
    by (auto simp: always_due_def aborted_def)
  have na: "\<not> aborted s" using True by (simp add: aborted_def)
  have ps: "m_publishers s = ps" using assms(2) by (simp add: delivered_to_each_def)
  show ?thesis
  proof (cases "aborted (publish_to vt ps s)")
    case ab: True
    then have "pc (publish_to vt ps s) \<noteq> L175" by (auto simp: aborted_def)
    with ab True due ps show ?thesis
      by (simp add: loop_step_def publish_def delivered_to_each_def Let_def)
  next
    case nab: False
    then have "pc (publish_to vt ps s) = L175"
      using publish_to_pc [of vt ps s] True by simp
    moreover obtain new where "published (publish_to vt ps s) = published s @ new"
      "map fst new = ps"
      using publish_to_deliveries [OF na nab] by blast
    ultimately show ?thesis using True due assms(2) na ps
      by (simp add: loop_step_def publish_def delivered_to_each_def awaiting_check_def
          aborted_def Let_def)
  qed
next
  case False
  then show ?thesis using assms(2)
    by (cases "pc s")
      (auto simp: loop_step_def delivered_to_each_def awaiting_check_def aborted_def
        concat_replicate_commute split: list.splits sum.splits)
qed

lemma step_delivered:
  assumes "always_due s" and "delivered_to_each ps s"
  shows "delivered_to_each ps (step vt e s)"
proof (cases e)
  case Worker
  then show ?thesis using loop_step_delivered [OF assms] by simp
next
  case (Callback d)
  then show ?thesis using assms(2)
    by (simp add: delivered_to_each_def awaiting_check_def aborted_def callback_def)
next
  case (Tick dt)
  then show ?thesis using assms(2)
    by (simp add: delivered_to_each_def awaiting_check_def aborted_def)
next
  case Start
  then show ?thesis using assms(2)
    by (auto simp: delivered_to_each_def awaiting_check_def aborted_def start_def)
next
  case Destructor
  then show ?thesis using assms(2)
    by (auto simp: delivered_to_each_def awaiting_check_def aborted_def dtor_step_def
        split: dtor_pc.splits list.splits)
qed

lemma run_delivered:
  assumes "always_due s" and "delivered_to_each ps s"
  shows "delivered_to_each ps (run vt evs s)"
proof -
  have "always_due (run vt evs s) \<and> delivered_to_each ps (run vt evs s)"
  proof (rule run_invariant [where ok = "\<lambda>e. True"
        and P = "\<lambda>s'. always_due s' \<and> delivered_to_each ps s'"])
    show "always_due (s'\<lparr>pc := Aborted PureVirtualCall\<rparr>) \<and>
        delivered_to_each ps (s'\<lparr>pc := Aborted PureVirtualCall\<rparr>)"
      if "always_due s' \<and> delivered_to_each ps s'" for s'
      using that by (simp add: always_due_def delivered_to_each_def aborted_def)
  qed (use assms step_always_due step_delivered in auto)
  then show ?thesis by simp
qed

text \<open>
  Claim C3, as amended. A publish rate of 0 gives a period of zero, not an infinite
  one. The clock is then due at every check: in every run of a mapper configured with
  the rate 0, unless a fault has ended the process, each applied observation whose
  check of the clock is over has been followed by a delivery to every registered
  publisher: the recipients of the deliveries are the registered publishers, all of
  them and in their order, once for each such observation.
\<close>

theorem rate_zero_publishes_after_every_observation:
  assumes "mapper_setup vt nh dps pubs (new_mapper nm st) = Inr s0"
    and "param_double nh (param_name nm ''publish_rate'') 10 = 0"
  shows "m_publish_period s0 = 0 \<and>
         m_publishers (run vt evs s0) = m_publishers s0 \<and>
         (aborted (run vt evs s0) \<or>
          map fst (published (run vt evs s0)) @
            concat (replicate (awaiting_check (run vt evs s0)) (m_publishers s0)) =
          concat (replicate (length (applied (run vt evs s0))) (m_publishers s0)))"
proof -
  have p: "m_publish_period s0 = 0"
    using mapper_setup_frame(6) [OF assms(1)] assms(2) by (simp add: new_mapper_def)
  have "pc s0 = NotStarted" "applied s0 = []" "published s0 = []"
    using mapper_setup_frame(1-3) [OF assms(1)] by (simp_all add: new_mapper_def)
  with p have "always_due s0" "delivered_to_each (m_publishers s0) s0"
    by (simp_all add: always_due_def delivered_to_each_def awaiting_check_def)
  then have "delivered_to_each (m_publishers s0) (run vt evs s0)" by (rule run_delivered)
  with p show ?thesis by (simp add: delivered_to_each_def)
qed

text \<open>
  A run of the theorem: two observations are applied, the second with a transform that
  is not found, and each is followed by the delivery to the one publisher.
\<close>

theorem rate_zero_witness:
  "mapper_setup demo_vt demo_nh_rate0 {''laser''} {''cloud''} (new_mapper ''mapper'' None) =
     Inr demo_configured_rate0 \<and>
   param_double demo_nh_rate0 (param_name ''mapper'' ''publish_rate'') 10 = 0 \<and>
   m_publish_period demo_configured_rate0 = 0 \<and>
   m_publishers demo_configured_rate0 = [''cloud''] \<and>
   applied (run demo_vt
     [Start, Worker, Callback demo_cloud, Callback demo_lost, Worker, Worker, Worker, Worker,
      Worker, Tick 2, Worker, Worker, Worker, Worker, Tick 3, Worker] demo_configured_rate0) =
     [demo_cloud, demo_lost] \<and>
   published (run demo_vt
     [Start, Worker, Callback demo_cloud, Callback demo_lost, Worker, Worker, Worker, Worker,
      Worker, Tick 2, Worker, Worker, Worker, Worker, Tick 3, Worker] demo_configured_rate0) =
     [(''cloud'', Some (demo_map\<lparr>ogm_tree := [(2, 2, 3)]\<rparr>), 2),
      (''cloud'', Some (demo_map\<lparr>ogm_tree := [(2, 2, 3)]\<rparr>), 5)]"
proof -
  have h: "mapper_setup demo_vt demo_nh_rate0 {''laser''} {''cloud''} (new_mapper ''mapper'' None) =
     Inr demo_configured_rate0"
    "param_double demo_nh_rate0 (param_name ''mapper'' ''publish_rate'') 10 = 0"
    using demo_setup_rate0
    by (simp_all add: demo_new_def demo_nh_rate0_def param_double_def param_name_def)
  have "m_publishers demo_configured_rate0 = [''cloud'']"
    "applied (run demo_vt
     [Start, Worker, Callback demo_cloud, Callback demo_lost, Worker, Worker, Worker, Worker,
      Worker, Tick 2, Worker, Worker, Worker, Worker, Tick 3, Worker] demo_configured_rate0) =
     [demo_cloud, demo_lost]"
    "published (run demo_vt
     [Start, Worker, Callback demo_cloud, Callback demo_lost, Worker, Worker, Worker, Worker,
      Worker, Tick 2, Worker, Worker, Worker, Worker, Tick 3, Worker] demo_configured_rate0) =
     [(''cloud'', Some (demo_map\<lparr>ogm_tree := [(2, 2, 3)]\<rparr>), 2),
      (''cloud'', Some (demo_map\<lparr>ogm_tree := [(2, 2, 3)]\<rparr>), 5)]"
    by (simp_all add: demo_simps)
  with rate_zero_publishes_after_every_observation [OF h, of
     "[Start, Worker, Callback demo_cloud, Callback demo_lost, Worker, Worker, Worker, Worker,
      Worker, Tick 2, Worker, Worker, Worker, Worker, Tick 3, Worker]"] h
  show ?thesis by simp
qed

text \<open>
  The claim as it is written fails: configured with the rate 0, the mapper publishes
  right after the one observation it has applied.
\<close>

theorem rate_zero_counterexample:
  "mapper_setup demo_vt demo_nh_rate0 {''laser''} {''cloud''} demo_new =
     Inr demo_configured_rate0 \<and>
   m_publish_period demo_configured_rate0 = 0 \<and>
   published (run demo_vt
     [Start, Worker, Callback demo_cloud, Worker, Worker, Worker, Worker, Tick 5, Worker, Worker]
     demo_configured_rate0) =
     [(''cloud'', Some (demo_map\<lparr>ogm_tree := [(2, 2, 3)]\<rparr>), 5)]"
  by (simp add: demo_setup_rate0) (simp add: demo_simps)

text \<open>
  Claim C4. Let the loop be about to execute line 173 with the observation \<open>d\<close> at the
  head of the queue, whatever is queued behind it, and let \<^verbatim>\<open>process\<close> return.
  The worker's step applies \<open>d\<close> and leads to the check of the clock, before anything
  else is taken from the queue. If the clock, read \<open>dt\<close> later, has reached the due
  time, the next step delivers to every publisher, in the order of registration and
  stamped with that reading, and sets the next due time to the reading plus the period
  (unless \<^verbatim>\<open>getMap\<close> ends the thread); otherwise nothing is published and the due time
  stays.
\<close>

theorem clock_checked_after_each_observation:
  assumes "pc s = L173" and "m_queue s = d # q" and "process vt d (members s) = Inr m"
    and "0 \<le> dt"
  shows "applied (run vt [Worker] s) = applied s @ [d] \<and>
         m_queue (run vt [Worker] s) = q \<and> pc (run vt [Worker] s) = L175 \<and>
         (if loop_pub s \<le> clock s + dt
          then (pc (run vt [Worker, Tick dt, Worker] s) = L169 \<or>
                aborted (run vt [Worker, Tick dt, Worker] s)) \<and>
               (\<not> aborted (run vt [Worker, Tick dt, Worker] s) \<longrightarrow>
                  (\<exists>new. published (run vt [Worker, Tick dt, Worker] s) = published s @ new \<and>
                         map fst new = m_publishers s \<and>
                         list_all (\<lambda>x. snd (snd x) = clock s + dt) new) \<and>
                  loop_pub (run vt [Worker, Tick dt, Worker] s) =
                    clock s + dt + m_publish_period s)
          else pc (run vt [Worker, Tick dt, Worker] s) = L169 \<and>
               published (run vt [Worker, Tick dt, Worker] s) = published s \<and>
               loop_pub (run vt [Worker, Tick dt, Worker] s) = loop_pub s)"
proof -
  define s1 where "s1 = s\<lparr>m_queue := q, members := m, applied := applied s @ [d],
    loop_n := loop_n s + 1, pc := L175, clock := clock s + dt\<rparr>"
  have first: "loop_step vt s = s\<lparr>m_queue := q, members := m, applied := applied s @ [d],
    loop_n := loop_n s + 1, pc := L175\<rparr>"
    using assms(1-3) by (simp add: loop_step_def)
  have run1: "applied (run vt [Worker] s) = applied s @ [d] \<and>
      m_queue (run vt [Worker] s) = q \<and> pc (run vt [Worker] s) = L175"
    by (simp add: first)
  have run3: "run vt [Worker, Tick dt, Worker] s = loop_step vt s1"
    using assms(4) by (simp add: first s1_def)
  have s1: "pc s1 = L175" "clock s1 = clock s + dt" "loop_pub s1 = loop_pub s"
    "published s1 = published s" "m_publishers s1 = m_publishers s"
    "m_publish_period s1 = m_publish_period s" "\<not> aborted s1"
    by (simp_all add: s1_def aborted_def)
  have late: "pc (loop_step vt s1) = L169 \<and> published (loop_step vt s1) = published s \<and>
      loop_pub (loop_step vt s1) = loop_pub s"
    if "\<not> loop_pub s \<le> clock s + dt"
    using that s1 by (simp add: loop_step_def)
  have due: "(pc (loop_step vt s1) = L169 \<or> aborted (loop_step vt s1)) \<and>
      (\<not> aborted (loop_step vt s1) \<longrightarrow>
         (\<exists>new. published (loop_step vt s1) = published s @ new \<and>
                map fst new = m_publishers s \<and>
                list_all (\<lambda>x. snd (snd x) = clock s + dt) new) \<and>
         loop_pub (loop_step vt s1) = clock s + dt + m_publish_period s)"
    if d: "loop_pub s \<le> clock s + dt"
  proof (cases "aborted (publish_to vt (m_publishers s) s1)")
    case True
    then have "pc (publish_to vt (m_publishers s) s1) \<noteq> L175" by (auto simp: aborted_def)
    then have "loop_step vt s1 = publish_to vt (m_publishers s) s1"
      using s1 d by (simp add: loop_step_def publish_def Let_def)
    with True show ?thesis by simp
  next
    case False
    then have pc: "pc (publish_to vt (m_publishers s) s1) = L175"
      using publish_to_pc [of vt "m_publishers s" s1] s1 by simp
    then have eq: "loop_step vt s1 = (publish_to vt (m_publishers s) s1)
        \<lparr>loop_n := 0, loop_start := clock s + dt,
         loop_pub := clock s + dt + m_publish_period s, pc := L169\<rparr>"
      using s1 d by (simp add: loop_step_def publish_def Let_def)
    from publish_to_deliveries [OF s1(7) False]
    obtain new where "published (publish_to vt (m_publishers s) s1) = published s @ new"
      "map fst new = m_publishers s" "list_all (\<lambda>x. snd (snd x) = clock s + dt) new"
      using s1 by auto
    then show ?thesis by (simp add: eq aborted_def)
  qed
  show ?thesis
  proof (cases "loop_pub s \<le> clock s + dt")
    case True
    with due run1 show ?thesis unfolding run3 by simp
  next
    case False
    with late run1 show ?thesis unfolding run3 by simp
  qed
qed

text \<open>
  A run of the theorem: a backlog of two observations, 0.2 s spent on the first. The
  snapshot is published with the second observation still in the queue.
\<close>

theorem clock_checked_witness:
  "pc demo_backlog = L173 \<and> m_queue demo_backlog = [demo_cloud, demo_lost] \<and>
   process demo_vt demo_cloud (members demo_backlog) =
     Inr (Some (demo_map\<lparr>ogm_tree := [(2, 2, 3)]\<rparr>)) \<and>
   (0 :: real) \<le> 1 / 5 \<and> loop_pub demo_backlog = 1 / 10 \<and> clock demo_backlog = 0 \<and>
   applied (run demo_vt [Worker] demo_backlog) = [demo_cloud] \<and>
   m_queue (run demo_vt [Worker, Tick (1 / 5), Worker] demo_backlog) = [demo_lost] \<and>
   published (run demo_vt [Worker, Tick (1 / 5), Worker] demo_backlog) =
     [(''cloud'', Some (demo_map\<lparr>ogm_tree := [(2, 2, 3)]\<rparr>), 1 / 5)] \<and>
   loop_pub (run demo_vt [Worker, Tick (1 / 5), Worker] demo_backlog) = 3 / 10"
proof -
  have h: "pc demo_backlog = L173" "m_queue demo_backlog = [demo_cloud, demo_lost]"
    "process demo_vt demo_cloud (members demo_backlog) =
       Inr (Some (demo_map\<lparr>ogm_tree := [(2, 2, 3)]\<rparr>))"
    "(0 :: real) \<le> 1 / 5"
    by (simp_all add: demo_simps)
  have "loop_pub demo_backlog = 1 / 10" "clock demo_backlog = 0" "applied demo_backlog = []"
    "m_queue (run demo_vt [Worker, Tick (1 / 5), Worker] demo_backlog) = [demo_lost]"
    "published (run demo_vt [Worker, Tick (1 / 5), Worker] demo_backlog) =
       [(''cloud'', Some (demo_map\<lparr>ogm_tree := [(2, 2, 3)]\<rparr>), 1 / 5)]"
    "loop_pub (run demo_vt [Worker, Tick (1 / 5), Worker] demo_backlog) = 3 / 10"
    by (simp_all add: demo_simps)
  with clock_checked_after_each_observation [OF h] h show ?thesis by simp
qed

section \<open>The update engine of OccupancyGridMapper3D\<close>

lemma ogm3d_publish_to:
  "members s = Some m \<Longrightarrow>
   pc (publish_to (ogm3d_vtable ext mf tmo) ps s) = pc s \<and>
   (\<exists>m'. members (publish_to (ogm3d_vtable ext mf tmo) ps s) = Some m')"
proof (induction ps arbitrary: s m)
  case Nil
  then show ?case by simp
next
  case (Cons p ps)
  let ?m = "m\<lparr>ogm_tree := updateInnerOccupancy ext (ogm_tree m)\<rparr>"
  let ?s = "s\<lparr>members := Some ?m, published := published s @ [(p, Some ?m, clock s)]\<rparr>"
  have "members ?s = Some ?m" by simp
  from Cons.IH [OF this] Cons.prems show ?case
    by (simp add: ogm3d_vtable_def ogm3d_getMap_def)
qed

lemma ogm3d_check_step:
  assumes "pc s = L175" and "members s = Some m"
  shows "pc (loop_step (ogm3d_vtable ext mf tmo) s) = L169 \<and>
         m_queue (loop_step (ogm3d_vtable ext mf tmo) s) = m_queue s \<and>
         m_stop (loop_step (ogm3d_vtable ext mf tmo) s) = m_stop s \<and>
         applied (loop_step (ogm3d_vtable ext mf tmo) s) = applied s \<and>
         (\<exists>m'. members (loop_step (ogm3d_vtable ext mf tmo) s) = Some m')"
  using assms ogm3d_publish_to [OF assms(2), of ext mf tmo "m_publishers s"]
  by (auto simp: loop_step_def publish_def Let_def)

lemma ogm3d_process_cloud:
  "\<exists>m'. ogm3d_process ext mf tmo (Pointcloud3d c) (Some m) = Inr (Some m')"
  by (simp add: ogm3d_process_def ogm3d_uses_def Let_def split: option.splits)

lemma ogm3d_process_lost:
  "lookupTransform ext mf (cloud_frame c) (cloud_time_start c) tmo = None \<Longrightarrow>
   ogm3d_process ext mf tmo (Pointcloud3d c) mp = Inr mp"
  by (simp add: ogm3d_process_def ogm3d_uses_def)

text \<open>
  Claim C7. Let the transform of the observation \<open>c\<close> not be found within the timeout.
  Then \<^verbatim>\<open>process\<close> returns normally and leaves the map pointer, and with it the map,
  as it was. In the loop: with \<open>c\<close> at the head of the queue and another cloud \<open>c'\<close>
  behind it, the worker's step leaves the map unchanged and goes on to the check of the
  clock, and four steps later \<open>c'\<close> has been applied as well; the thread has not ended.
\<close>

theorem failed_lookup_drops_only_that_observation:
  assumes "lookupTransform ext mf (cloud_frame c) (cloud_time_start c) tmo = None"
    and "pc s = L173" and "m_queue s = Pointcloud3d c # Pointcloud3d c' # q"
    and "\<not> m_stop s" and "members s = Some m"
  shows "ogm3d_process ext mf tmo (Pointcloud3d c) mp = Inr mp \<and>
         members (run (ogm3d_vtable ext mf tmo) [Worker] s) = members s \<and>
         pc (run (ogm3d_vtable ext mf tmo) [Worker] s) = L175 \<and>
         m_queue (run (ogm3d_vtable ext mf tmo) [Worker] s) = Pointcloud3d c' # q \<and>
         applied (run (ogm3d_vtable ext mf tmo) [Worker, Worker, Worker, Worker, Worker] s) =
           applied s @ [Pointcloud3d c, Pointcloud3d c'] \<and>
         pc (run (ogm3d_vtable ext mf tmo) [Worker, Worker, Worker, Worker, Worker] s) = L175"
proof -
  let ?vt = "ogm3d_vtable ext mf tmo"
  define s1 where "s1 = loop_step ?vt s"
  define s2 where "s2 = loop_step ?vt s1"
  have p: "process ?vt = ogm3d_process ext mf tmo" by (simp add: ogm3d_vtable_def)
  have s1: "s1 = s\<lparr>m_queue := Pointcloud3d c' # q, members := Some m,
      applied := applied s @ [Pointcloud3d c], loop_n := loop_n s + 1, pc := L175\<rparr>"
    using assms by (simp add: s1_def loop_step_def p ogm3d_process_lost)
  then have "pc s1 = L175" "members s1 = Some m" by simp_all
  from ogm3d_check_step [OF this, of ext mf tmo]
  obtain m2 where s2: "pc s2 = L169" "m_queue s2 = Pointcloud3d c' # q" "\<not> m_stop s2"
    "applied s2 = applied s @ [Pointcloud3d c]" "members s2 = Some m2"
    using s1 assms(4) by (auto simp: s2_def)
  obtain m3 where m3: "ogm3d_process ext mf tmo (Pointcloud3d c') (Some m2) = Inr (Some m3)"
    using ogm3d_process_cloud by blast
  have "loop_step ?vt (loop_step ?vt (loop_step ?vt s2)) =
      s2\<lparr>m_queue := q, members := Some m3,
         applied := applied s @ [Pointcloud3d c, Pointcloud3d c'],
         loop_n := loop_n s2 + 1, pc := L175\<rparr>"
    using s2 m3 by (simp add: loop_step_def p)
  then have five: "run ?vt [Worker, Worker, Worker, Worker, Worker] s =
      s2\<lparr>m_queue := q, members := Some m3,
         applied := applied s @ [Pointcloud3d c, Pointcloud3d c'],
         loop_n := loop_n s2 + 1, pc := L175\<rparr>"
    by (simp add: s1_def s2_def)
  have one: "run ?vt [Worker] s = s1" by (simp add: s1_def)
  show ?thesis
    unfolding five one using assms(1,5) by (simp add: s1 ogm3d_process_lost)
qed

theorem failed_lookup_witness:
  "lookupTransform demo_ext ''/map'' (cloud_frame demo_lost_data)
     (cloud_time_start demo_lost_data) (1 / 10) = None \<and>
   pc demo_lost_first = L173 \<and> m_queue demo_lost_first = [demo_lost, demo_cloud] \<and>
   \<not> m_stop demo_lost_first \<and> members demo_lost_first = Some demo_map \<and>
   members (run demo_vt [Worker] demo_lost_first) = Some demo_map \<and>
   applied (run demo_vt [Worker, Worker, Worker, Worker, Worker] demo_lost_first) =
     [demo_lost, demo_cloud] \<and>
   members (run demo_vt [Worker, Worker, Worker, Worker, Worker] demo_lost_first) =
     Some (demo_map\<lparr>ogm_tree := [(2, 2, 3)]\<rparr>)"
proof -
  have h: "lookupTransform demo_ext ''/map'' (cloud_frame demo_lost_data)
      (cloud_time_start demo_lost_data) (1 / 10) = None"
    "pc demo_lost_first = L173"
    "m_queue demo_lost_first = Pointcloud3d demo_lost_data # Pointcloud3d demo_cloud_data # []"
    "\<not> m_stop demo_lost_first" "members demo_lost_first = Some demo_map"
    by (simp_all add: demo_simps)
  have "members (run demo_vt [Worker, Worker, Worker, Worker, Worker] demo_lost_first) =
     Some (demo_map\<lparr>ogm_tree := [(2, 2, 3)]\<rparr>)" "applied demo_lost_first = []"
    by (simp_all add: demo_simps)
  with failed_lookup_drops_only_that_observation [OF h] h show ?thesis
    by (simp add: demo_vt_def demo_lost_def demo_cloud_def)
qed

lemma push_points_eq:
  "push_points ext T pts cloud =
     cloud @ map (transform_point ext T)
       (filter (\<lambda>p. isNormal ext p \<and> isNormal ext (transform_point ext T p)) pts)"
  by (induction pts arbitrary: cloud) (simp_all add: Let_def)

lemma spec_cloud_eq:
  "spec_cloud ext T pts =
     map (transform_point ext T) (filter (\<lambda>p. isNormal ext (transform_point ext T p)) pts)"
  by (induction pts) (simp_all add: spec_cloud_def)

text \<open>
  Claim C8, as amended. When the transform is found and the observation has points,
  the points that are not normal before the transform are discarded without being
  transformed; the others are transformed into the map frame, and those not normal
  after the transform are discarded; the points that remain are handed to the map in
  one call of \<^verbatim>\<open>insertPointCloud\<close>, with the translation of the transform as origin.
  Where no point that is normal after the transform was not normal before it, this is
  the cloud of the specification.
\<close>

theorem process_inserts_the_points_normal_before_and_after:
  assumes "lookupTransform ext mf (cloud_frame c) (cloud_time_start c) tmo = Some T"
    and "cloud_points c = Some pts"
  shows "ogm3d_process ext mf tmo (Pointcloud3d c) (Some m) =
           Inr (Some (m\<lparr>ogm_tree :=
             insertPointCloud ext
               (map (transform_point ext T)
                  (filter (\<lambda>p. isNormal ext p \<and> isNormal ext (transform_point ext T p)) pts))
               (translation ext T) (ogm_tree m)\<rparr>)) \<and>
         (list_all (\<lambda>p. isNormal ext (transform_point ext T p) \<longrightarrow> isNormal ext p) pts \<longrightarrow>
            push_points ext T pts [] = spec_cloud ext T pts)"
proof -
  have "push_points ext T pts [] = spec_cloud ext T pts"
    if "list_all (\<lambda>p. isNormal ext (transform_point ext T p) \<longrightarrow> isNormal ext p) pts"
  proof -
    have "filter (\<lambda>p. isNormal ext p \<and> isNormal ext (transform_point ext T p)) pts =
        filter (\<lambda>p. isNormal ext (transform_point ext T p)) pts"
      using that by (intro filter_cong) (auto simp: list_all_iff)
    then show ?thesis by (simp add: push_points_eq spec_cloud_eq)
  qed
  then show ?thesis using assms
    by (simp add: ogm3d_process_def ogm3d_uses_def push_points_eq Let_def)
qed

theorem process_inserts_witness:
  "lookupTransform demo_ext ''/map'' ''laser'' 0 (1 / 10) = Some (1, 0, 0) \<and>
   list_all (\<lambda>p. isNormal demo_ext (transform_point demo_ext (1, 0, 0) p) \<longrightarrow> isNormal demo_ext p)
     [(1, 2, 3), (- 1, 5, 5)] \<and>
   ogm3d_process demo_ext ''/map'' (1 / 10)
     (Pointcloud3d \<lparr>cloud_frame = ''laser'', cloud_time_start = 0,
                    cloud_points = Some [(1, 2, 3), (- 1, 5, 5)]\<rparr>) (Some demo_map) =
     Inr (Some (demo_map\<lparr>ogm_tree := [(2, 2, 3)]\<rparr>)) \<and>
   push_points demo_ext (1, 0, 0) [(1, 2, 3), (- 1, 5, 5)] [] = [(2, 2, 3)] \<and>
   spec_cloud demo_ext (1, 0, 0) [(1, 2, 3), (- 1, 5, 5)] = [(2, 2, 3)]"
proof -
  have h: "lookupTransform demo_ext ''/map''
      (cloud_frame \<lparr>cloud_frame = ''laser'', cloud_time_start = 0,
                    cloud_points = Some [(1, 2, 3), (- 1, 5, 5)]\<rparr>)
      (cloud_time_start \<lparr>cloud_frame = ''laser'', cloud_time_start = 0,
                    cloud_points = Some [(1, 2, 3), (- 1, 5, 5)]\<rparr>) (1 / 10) = Some (1, 0, 0)"
    "cloud_points \<lparr>cloud_frame = ''laser'', cloud_time_start = 0,
                    cloud_points = Some [(1, 2, 3), (- 1, 5, 5)]\<rparr> = Some [(1, 2, 3), (- 1, 5, 5)]"
    by (simp_all add: demo_simps)
  have "list_all (\<lambda>p. isNormal demo_ext (transform_point demo_ext (1, 0, 0) p) \<longrightarrow> isNormal demo_ext p)
     [(1, 2, 3), (- 1, 5, 5)]"
    "spec_cloud demo_ext (1, 0, 0) [(1, 2, 3), (- 1, 5, 5)] = [(2, 2, 3)]"
    by (simp_all add: demo_simps spec_cloud_def)
  with process_inserts_the_points_normal_before_and_after [OF h, of demo_map] h(1) show ?thesis
    by (simp add: demo_simps)
qed

text \<open>
  The claim as it is written fails where \<^verbatim>\<open>isNormal\<close> rejects a point that the
  transform would make normal: the point (0, 1, 1) becomes (1, 1, 1), which is normal,
  and yet it is not inserted.
\<close>

theorem process_prefilter_counterexample:
  "lookupTransform demo_ext ''/map'' (cloud_frame demo_cloud_data)
     (cloud_time_start demo_cloud_data) (1 / 10) = Some (1, 0, 0) \<and>
   cloud_points demo_cloud_data = Some [(1, 2, 3), (0, 1, 1)] \<and>
   transform_point demo_ext (1, 0, 0) (0, 1, 1) = (1, 1, 1) \<and>
   isNormal demo_ext (1, 1, 1) \<and>
   spec_cloud demo_ext (1, 0, 0) [(1, 2, 3), (0, 1, 1)] = [(2, 2, 3), (1, 1, 1)] \<and>
   ogm3d_process demo_ext ''/map'' (1 / 10) demo_cloud (Some demo_map) =
     Inr (Some (demo_map\<lparr>ogm_tree := [(2, 2, 3)]\<rparr>))"
  by (simp add: demo_simps spec_cloud_def)

section \<open>Saving the map\<close>

text \<open>
  Claim C10. \<^verbatim>\<open>saveMap\<close> on a mapper whose map pointer is null returns true, writes
  the line "No Map." and leaves the file system untouched.
\<close>

theorem saveMap_without_map_reports_success:
  assumes "members s = None"
  shows "saveMap (ogm3d_saveMap io) path s fs =
           (Inr True, s\<lparr>m_path := path_append path (m_name s), cout := cout s @ [NoMap]\<rparr>, fs)"
  using assms by (simp add: saveMap_def ogm3d_saveMap_def)

text \<open>
  A run of the theorem, and for contrast a mapper with a map, which creates the
  directory and the file.
\<close>

theorem saveMap_without_map_witness:
  "members demo_new = None \<and>
   saveMap (ogm3d_saveMap demo_io) ''/tmp/maps'' demo_new [] =
     (Inr True, demo_new\<lparr>m_path := ''/tmp/maps/mapper'', cout := [NoMap]\<rparr>, []) \<and>
   saveMap (ogm3d_saveMap demo_io) ''/tmp/maps'' demo_configured [] =
     (Inr True,
      demo_configured\<lparr>m_path := ''/tmp/maps/mapper'',
        cout := [UsingDataProviders [''laser''], UsingPublishers [''cloud''], SavingMap]\<rparr>,
      [''/tmp/maps/mapper'', ''/tmp/maps/mapper/map.ot''])"
proof -
  have h: "members demo_new = None" by (simp add: demo_new_def new_mapper_def)
  have "saveMap (ogm3d_saveMap demo_io) ''/tmp/maps'' demo_configured [] =
     (Inr True,
      demo_configured\<lparr>m_path := ''/tmp/maps/mapper'',
        cout := [UsingDataProviders [''laser''], UsingPublishers [''cloud''], SavingMap]\<rparr>,
      [''/tmp/maps/mapper'', ''/tmp/maps/mapper/map.ot''])"
    by (simp add: saveMap_def ogm3d_saveMap_def checkPath_def demo_io_def path_append_def
        demo_configured_def demo_new_def new_mapper_def demo_map_def Let_def)
  with saveMap_without_map_reports_success [OF h, of demo_io "''/tmp/maps''" "[]"] h
  show ?thesis by (simp add: path_append_def demo_new_def new_mapper_def)
qed

section \<open>The variants of a map and the publisher\<close>

text \<open>
  Claim C9. An accessor asked for a variant other than the stored one fails with
  \<open>TypeMismatch\<close>, and an accessor that returns has returned what the map of that very
  variant stores. A map that is neither of the two variants the publisher knows makes
  \<^verbatim>\<open>doPublish\<close> write "Got wrong map type!" and publish nothing; and \<^verbatim>\<open>doPublish\<close>
  never fails, since it calls an accessor only after \<^verbatim>\<open>isType\<close> has said yes.
\<close>

theorem variant_mismatch_is_refused:
  "(getVariantTag m \<noteq> NDTGridMap3D_type \<longrightarrow> as_NDTGridMap3D m = Inl TypeMismatch) \<and>
   (getVariantTag m \<noteq> OccupancyNDTGridMap3D_type \<longrightarrow>
      as_OccupancyNDTGridMap3D m = Inl TypeMismatch) \<and>
   (\<forall>g. as_NDTGridMap3D m = Inr g \<longrightarrow> (\<exists>fr. m = NDTGridMap3D fr g)) \<and>
   (\<forall>g. as_OccupancyNDTGridMap3D m = Inr g \<longrightarrow> (\<exists>fr. m = OccupancyNDTGridMap3D fr g)) \<and>
   (\<not> pcp_uses m \<longrightarrow>
      doPublish cv m t p = Inr (p\<lparr>pp_cout := pp_cout p @ [GotWrongMapType]\<rparr>)) \<and>
   (\<forall>f. doPublish cv m t p \<noteq> Inl f)"
  by (cases m)
    (auto simp: getVariantTag_def as_NDTGridMap3D_def as_OccupancyNDTGridMap3D_def pcp_uses_def
      isType_def doPublish_def publishNDTGridMap3D_def publishOccupancyNDTGridMap3D_def
      split: option.splits)

theorem variant_mismatch_witness:
  "getVariantTag demo_other_map \<noteq> NDTGridMap3D_type \<and>
   getVariantTag demo_other_map \<noteq> OccupancyNDTGridMap3D_type \<and>
   \<not> pcp_uses demo_other_map \<and>
   as_NDTGridMap3D demo_other_map = Inl TypeMismatch \<and>
   as_OccupancyNDTGridMap3D demo_other_map = Inl TypeMismatch \<and>
   as_NDTGridMap3D (NDTGridMap3D ''/map'' (Some [1, 2, 3]) :: (nat list, nat list) map_t) =
     Inr (Some [1, 2, 3]) \<and>
   doPublish demo_conversion demo_other_map 7 demo_publisher =
     Inr (demo_publisher\<lparr>pp_cout := [GotWrongMapType]\<rparr>) \<and>
   pp_sent (demo_publisher\<lparr>pp_cout := [GotWrongMapType]\<rparr>) = []"
proof -
  have h: "getVariantTag demo_other_map \<noteq> NDTGridMap3D_type"
    "getVariantTag demo_other_map \<noteq> OccupancyNDTGridMap3D_type"
    "\<not> pcp_uses demo_other_map"
    by (simp_all add: demo_other_map_def getVariantTag_def pcp_uses_def isType_def)
  have "as_NDTGridMap3D (NDTGridMap3D ''/map'' (Some [1, 2, 3]) :: (nat list, nat list) map_t) =
     Inr (Some [1, 2, 3])" "pp_cout demo_publisher = []" "pp_sent demo_publisher = []"
    by (simp_all add: as_NDTGridMap3D_def demo_publisher_def)
  with variant_mismatch_is_refused [of demo_other_map demo_conversion 7 demo_publisher] h
  show ?thesis by simp
qed

end
